theory Spec2Isabelle
  imports Main "HOL-Library.Sublist"
begin

section \<open>JavaScript strings\<close>

text \<open>
  A JavaScript string is modelled as a \<^typ>\<open>string\<close> whose characters are the code points
  0..255 (Latin-1). Strings with code points beyond that range are outside the model.
\<close>

definition isWhitespace :: "char \<Rightarrow> bool" where
  \<comment> \<open>the characters matched by \<^verbatim>\<open>\s\<close> and removed by \<^verbatim>\<open>trim()\<close>, within Latin-1\<close>
  "isWhitespace c =
     (c \<in> set [CHR 0x09, CHR 0x0A, CHR 0x0B, CHR 0x0C, CHR 0x0D, CHR '' '', CHR 0xA0])"

definition trim :: "string \<Rightarrow> string" where
  "trim s = rev (dropWhile isWhitespace (rev (dropWhile isWhitespace s)))"

definition toLowerCase_char :: "char \<Rightarrow> char" where
  "toLowerCase_char c =
     (let n = (of_char c :: nat)
      in if (65 \<le> n \<and> n \<le> 90) \<or> (192 \<le> n \<and> n \<le> 222 \<and> n \<noteq> 215)
         then char_of (n + 32) else c)"

definition toLowerCase :: "string \<Rightarrow> string" where
  "toLowerCase s = map toLowerCase_char s"

function collapse_whitespace :: "string \<Rightarrow> string" where
  \<comment> \<open>\<^verbatim>\<open>s.replace(/\s+/g, ' ')\<close>: every maximal run of whitespace becomes one space\<close>
  "collapse_whitespace [] = []"
| "collapse_whitespace (c # cs) =
     (if isWhitespace c then CHR '' '' # collapse_whitespace (dropWhile isWhitespace cs)
      else c # collapse_whitespace cs)"
  by pat_completeness auto
termination
  by (relation "measure length") (auto simp: length_dropWhile_le less_Suc_eq_le)

fun join :: "string \<Rightarrow> string list \<Rightarrow> string" where
  \<comment> \<open>\<^verbatim>\<open>xs.join(sep)\<close>\<close>
  "join sep [] = []"
| "join sep [x] = x"
| "join sep (x # y # ys) = x @ sep @ join sep (y # ys)"

definition digit_char :: "nat \<Rightarrow> char" where
  "digit_char d = ''0123456789'' ! d"

fun string_of_nat :: "nat \<Rightarrow> string" where
  "string_of_nat n =
     (if n < 10 then [digit_char n] else string_of_nat (n div 10) @ [digit_char (n mod 10)])"

declare string_of_nat.simps [simp del]


section \<open>validator.ts\<close>

record Lead =
  name :: string
  email :: string
  company :: string
  source :: string

record ValidationResult =
  isValid :: bool
  errors :: "string list"

record ValidationResult_normalized = ValidationResult +
  normalizedLead :: "Lead option"

definition VALID_SOURCES :: "string list" where
  "VALID_SOURCES = [''LinkedIn'', ''Webinar'', ''Website'', ''Conference'', ''Referral'', ''Twitter'']"

definition email_class_plus :: "string \<Rightarrow> bool" where
  \<comment> \<open>the whole string matches \<^verbatim>\<open>[^\s@]+\<close>\<close>
  "email_class_plus s = (s \<noteq> [] \<and> (\<forall>c \<in> set s. \<not> isWhitespace c \<and> c \<noteq> CHR ''@''))"

definition EMAIL_REGEX_test :: "string \<Rightarrow> bool" where
  \<comment> \<open>\<^verbatim>\<open>/^[^\s@]+@[^\s@]+\.[^\s@]+$/.test(s)\<close>: some \<^verbatim>\<open>@\<close> at position \<open>i\<close> and
      some dot at a later position \<open>j\<close> split \<open>s\<close> into three pieces that each match the class\<close>
  "EMAIL_REGEX_test s =
     (\<exists>i \<in> set [0 ..< length s]. \<exists>j \<in> set [Suc i ..< length s].
        s ! i = CHR ''@'' \<and> s ! j = CHR ''.'' \<and>
        email_class_plus (take i s) \<and>
        email_class_plus (take (j - Suc i) (drop (Suc i) s)) \<and>
        email_class_plus (drop (Suc j) s))"

definition normalizeCompany :: "string \<Rightarrow> string" where
  "normalizeCompany c = collapse_whitespace (trim c)"

definition isEmpty :: "string \<Rightarrow> bool" where
  \<comment> \<open>\<^verbatim>\<open>!value || value.trim() === ''\<close>\<close>
  "isEmpty v = (v = [] \<or> trim v = [])"

definition source_message :: string where
  \<comment> \<open>\<^verbatim>\<open>`Source must be one of: ${VALID_SOURCES.join(', ')}`\<close>\<close>
  "source_message = ''Source must be one of: '' @ join '', '' VALID_SOURCES"

definition validateLead :: "Lead \<Rightarrow> ValidationResult_normalized" where
  \<comment> \<open>validator.ts, lines 34-62\<close>
  "validateLead l =
     (let errs =
            (if isEmpty (name l) then [''Name is required''] else [])
          @ (if isEmpty (company l) then [''Company is required''] else [])
          @ (if email l = [] \<or> \<not> EMAIL_REGEX_test (email l) then [''Invalid email format''] else [])
          @ (if isEmpty (source l) then [''Source is required'']
             else if source l \<notin> set VALID_SOURCES then [source_message]
             else []);
          valid = (length errs = 0)
      in \<lparr> isValid = valid, errors = errs,
           normalizedLead =
             (if valid then Some (l\<lparr>company := normalizeCompany (company l)\<rparr>) else None) \<rparr>)"

definition validateLead2 :: "Lead \<Rightarrow> ValidationResult" where
  \<comment> \<open>the second validator of the repository (validator.ts, lines 107-133), the one the
      validator tests exercise: other order of the checks, \<^verbatim>\<open>"Invalid source"\<close> message\<close>
  "validateLead2 l =
     (let errs =
            (if name l = [] \<or> trim (name l) = [] then [''Name is required''] else [])
          @ (if email l = [] \<or> \<not> EMAIL_REGEX_test (email l) then [''Invalid email format''] else [])
          @ (if normalizeCompany (company l) = [] then [''Company is required''] else [])
          @ (if source l = [] \<or> trim (source l) = [] then [''Source is required'']
             else if source l \<notin> set VALID_SOURCES then [''Invalid source'']
             else [])
      in \<lparr> isValid = (length errs = 0), errors = errs \<rparr>)"


section \<open>Values that cross the wire and values that are thrown\<close>

datatype json =
    JNull
  | JBool bool
  | JNum string
  | JStr string
  | JArr "json list"
  | JObj "(string \<times> json) list"

text \<open>
  A parsed JSON value. \<open>JObj kvs\<close> is the object whose property \<open>k\<close> has the value
  \<open>map_of kvs k\<close>. A number is a double, and \<open>JNum t\<close> is the number whose
  \<^verbatim>\<open>String()\<close> is the text \<open>t\<close>: that text names the double, up to the sign of zero
  (which \<^verbatim>\<open>===\<close> and truthiness do not see either), so \<open>JNum ''1e+21''\<close> is what a
  reply's \<^verbatim>\<open>1000000000000000000000\<close> parses to and \<open>JNum ''0''\<close> is zero. \<open>JNull\<close> also
  stands for the \<^verbatim>\<open>null\<close> that \<^verbatim>\<open>lookupLead\<close> resolves with.
\<close>

definition is_object :: "json \<Rightarrow> bool" where
  \<comment> \<open>\<^verbatim>\<open>x != null && typeof x === "object"\<close>\<close>
  "is_object j = (case j of JObj kvs \<Rightarrow> True | JArr xs \<Rightarrow> True | _ \<Rightarrow> False)"

definition truthy :: "json \<Rightarrow> bool" where
  "truthy j = (case j of JNull \<Rightarrow> False | JBool b \<Rightarrow> b | JNum t \<Rightarrow> t \<noteq> ''0''
                 | JStr s \<Rightarrow> s \<noteq> [] | JArr xs \<Rightarrow> True | JObj kvs \<Rightarrow> True)"

definition get_prop :: "string \<Rightarrow> json \<Rightarrow> json option" where
  \<comment> \<open>\<^verbatim>\<open>x[k]\<close> for the property names the program reads (lead, name, email, company,
      source, found): \<open>None\<close> is \<^verbatim>\<open>undefined\<close>; arrays and primitives have none of them\<close>
  "get_prop k j = (case j of JObj kvs \<Rightarrow> map_of kvs k | _ \<Rightarrow> None)"

record thrown =
  instanceofError :: bool
  message :: string
  asString :: string
  isAxiosError :: bool
  code :: "string option"
  status :: "nat option"

text \<open>
  A thrown value, by what the program reads of it: whether it is an \<^verbatim>\<open>Error\<close>, its
  \<^verbatim>\<open>message\<close>, \<^verbatim>\<open>String(err)\<close>, \<^verbatim>\<open>err.isAxiosError\<close>, \<^verbatim>\<open>err.code\<close> and
  \<^verbatim>\<open>err.response?.status\<close> (\<open>None\<close> is \<^verbatim>\<open>undefined\<close>).
\<close>

definition new_Error :: "string \<Rightarrow> thrown" where
  "new_Error msg =
     \<lparr> instanceofError = True, message = msg, asString = ''Error: '' @ msg,
       isAxiosError = False, code = None, status = None \<rparr>"

definition new_TypeError :: "string \<Rightarrow> thrown" where
  "new_TypeError msg =
     \<lparr> instanceofError = True, message = msg, asString = ''TypeError: '' @ msg,
       isAxiosError = False, code = None, status = None \<rparr>"

definition text_of_primitive :: "json \<Rightarrow> string" where
  \<comment> \<open>\<^verbatim>\<open>String(x)\<close> of a value that is no object\<close>
  "text_of_primitive j =
     (case j of JNull \<Rightarrow> ''null'' | JBool b \<Rightarrow> (if b then ''true'' else ''false'')
              | JNum t \<Rightarrow> t | JStr s \<Rightarrow> s | _ \<Rightarrow> [])"

fun first_thrown :: "(thrown + 'a) list \<Rightarrow> thrown + 'a list" where
  \<comment> \<open>the results of conversions done one after the other: the first throw ends them\<close>
  "first_thrown [] = Inr []"
| "first_thrown (Inl e # rs) = Inl e"
| "first_thrown (Inr x # rs) = (case first_thrown rs of Inl e \<Rightarrow> Inl e | Inr xs \<Rightarrow> Inr (x # xs))"

fun String_js :: "json \<Rightarrow> thrown + string" where
  \<comment> \<open>\<^verbatim>\<open>String(x)\<close> of a parsed JSON value. An array joins its elements with commas,
      \<^verbatim>\<open>null\<close> elements as the empty string. An object is \<^verbatim>\<open>[object Object]\<close> by the inherited
      \<^verbatim>\<open>toString\<close>; a property \<^verbatim>\<open>toString\<close> of its own hides that method and, being no
      function, leaves the conversion without a primitive, which throws\<close>
  "String_js (JArr xs) =
     (case first_thrown (map (\<lambda>x. if x = JNull then Inr [] else String_js x) xs) of
        Inl e \<Rightarrow> Inl e
      | Inr ts \<Rightarrow> Inr (join '','' ts))"
| "String_js (JObj kvs) =
     (if map_of kvs ''toString'' = None then Inr ''[object Object]''
      else Inl (new_TypeError ''Cannot convert object to primitive value''))"
| "String_js j = Inr (text_of_primitive j)"

definition error_message :: "thrown \<Rightarrow> string" where
  \<comment> \<open>\<^verbatim>\<open>err instanceof Error ? err.message : String(err)\<close>\<close>
  "error_message err = (if instanceofError err then message err else asString err)"


section \<open>apiClient.ts\<close>

definition MAX_RETRIES :: nat where
  "MAX_RETRIES = 3"

definition RETRYABLE_STATUS_CODES :: "nat list" where
  "RETRYABLE_STATUS_CODES = [429, 500, 502, 503, 504]"

definition RETRYABLE_ERROR_CODES :: "string list" where
  "RETRYABLE_ERROR_CODES = [''ECONNABORTED'', ''ETIMEDOUT'']"

definition isRetryable :: "thrown \<Rightarrow> bool" where
  "isRetryable err =
     (if (case code err of None \<Rightarrow> False | Some c \<Rightarrow> c \<noteq> [] \<and> c \<in> set RETRYABLE_ERROR_CODES)
      then True
      else if (case status err of None \<Rightarrow> False
               | Some s \<Rightarrow> s \<noteq> 0 \<and> s \<in> set RETRYABLE_STATUS_CODES)
      then True
      else False)"

datatype wire_event = Attempt nat | Sleep nat

record 'r net =
  remote :: 'r
  wire :: "wire_event list"

text \<open>
  The remote system is a state of type \<^typ>\<open>'r\<close> that only the requests change. Beside it
  the client keeps a log of what it did: \<open>Attempt k\<close> for the \<open>k\<close>-th call of the
  wrapped function, \<open>Sleep d\<close> for a wait of \<open>d\<close> milliseconds.
\<close>

definition exhausted :: "thrown option \<Rightarrow> thrown" where
  \<comment> \<open>the error thrown after the loop; \<open>None\<close> is a \<^verbatim>\<open>lastError\<close> never assigned\<close>
  "exhausted lastError =
     new_Error (''Max retries exhausted after '' @ string_of_nat MAX_RETRIES
                @ '' attempts. Last error: ''
                @ (case lastError of None \<Rightarrow> ''undefined'' | Some e \<Rightarrow> error_message e))"

function withRetry_loop ::
  "nat \<Rightarrow> ('r \<Rightarrow> (thrown + 'a) \<times> 'r) \<Rightarrow> nat \<Rightarrow> thrown option \<Rightarrow> 'r net \<Rightarrow> (thrown + 'a) \<times> 'r net"
where
  "withRetry_loop BASE_DELAY fn attempt lastError n =
     (if attempt \<le> MAX_RETRIES then
        (case fn (remote n) of (res, r') \<Rightarrow>
           (let n' = n\<lparr>remote := r', wire := wire n @ [Attempt attempt]\<rparr>
            in case res of
                 Inr v \<Rightarrow> (Inr v, n')
               | Inl err \<Rightarrow>
                   if \<not> isRetryable err then (Inl err, n')
                   else if attempt = MAX_RETRIES then (Inl (exhausted (Some err)), n')
                   else
                     (let delay = BASE_DELAY * 2 ^ (attempt - 1)
                      in withRetry_loop BASE_DELAY fn (attempt + 1) (Some err)
                           (if delay > 0 then n'\<lparr>wire := wire n' @ [Sleep delay]\<rparr> else n'))))
      else (Inl (exhausted lastError), n))"
  by pat_completeness auto
termination
  by (relation "measure (\<lambda>(b, f, attempt, le, n). Suc MAX_RETRIES - attempt)") auto

declare withRetry_loop.simps [simp del]

definition withRetry ::
  "nat \<Rightarrow> ('r \<Rightarrow> (thrown + 'a) \<times> 'r) \<Rightarrow> 'r net \<Rightarrow> (thrown + 'a) \<times> 'r net"
where
  "withRetry BASE_DELAY fn n = withRetry_loop BASE_DELAY fn 1 None n"

definition malformed :: thrown where
  "malformed = new_Error ''Malformed API response: missing expected fields (name, email)''"

definition lead_object :: "string \<Rightarrow> string \<Rightarrow> string \<Rightarrow> string \<Rightarrow> json" where
  \<comment> \<open>the object literal \<^verbatim>\<open>{ name, email, company, source }\<close>\<close>
  "lead_object n e c s =
     JObj [(''name'', JStr n), (''email'', JStr e), (''company'', JStr c), (''source'', JStr s)]"

definition json_of_lead :: "Lead \<Rightarrow> json" where
  "json_of_lead l = lead_object (name l) (email l) (company l) (source l)"

definition String_or_empty :: "json option \<Rightarrow> thrown + string" where
  \<comment> \<open>\<^verbatim>\<open>String(v ?? "")\<close>\<close>
  "String_or_empty v = (case v of None \<Rightarrow> Inr [] | Some JNull \<Rightarrow> Inr [] | Some x \<Rightarrow> String_js x)"

definition String_prop :: "json option \<Rightarrow> thrown + string" where
  \<comment> \<open>\<^verbatim>\<open>String(v)\<close> of a property that may be \<^verbatim>\<open>undefined\<close>\<close>
  "String_prop v = (case v of None \<Rightarrow> Inr ''undefined'' | Some x \<Rightarrow> String_js x)"

definition lead_literal :: "json \<Rightarrow> thrown + json" where
  \<comment> \<open>the object literal that \<^verbatim>\<open>extractLeadFromResponse\<close> returns, with its four conversions
      in the order it lists them; the first that throws ends the evaluation\<close>
  "lead_literal leadData =
     (case String_prop (get_prop ''name'' leadData) of Inl err \<Rightarrow> Inl err | Inr n \<Rightarrow>
      case String_prop (get_prop ''email'' leadData) of Inl err \<Rightarrow> Inl err | Inr e \<Rightarrow>
      case String_or_empty (get_prop ''company'' leadData) of Inl err \<Rightarrow> Inl err | Inr c \<Rightarrow>
      case String_or_empty (get_prop ''source'' leadData) of Inl err \<Rightarrow> Inl err | Inr s \<Rightarrow>
        Inr (lead_object n e c s))"

definition extractLeadFromResponse :: "json \<Rightarrow> thrown + json" where
  "extractLeadFromResponse data =
     (if \<not> is_object data then Inl malformed
      else
        (let leadData =
               (case get_prop ''lead'' data of
                  Some l \<Rightarrow> if truthy l \<and> is_object l then l else data
                | None \<Rightarrow> data)
         in if get_prop ''name'' leadData = None \<or> get_prop ''email'' leadData = None then Inl malformed
            else lead_literal leadData))"

definition validateLeadResponse :: "json \<Rightarrow> thrown + json" where
  "validateLeadResponse data =
     (if \<not> is_object data then Inl malformed
      else if (case get_prop ''lead'' data of Some l \<Rightarrow> truthy l \<and> is_object l | None \<Rightarrow> False)
      then extractLeadFromResponse data
      else if get_prop ''name'' data = None \<or> get_prop ''email'' data = None then Inl malformed
      else Inr data)"

record 'r axios =
  axios_get :: "string \<Rightarrow> string \<Rightarrow> 'r \<Rightarrow> (thrown + json) \<times> 'r"
  axios_post :: "string \<Rightarrow> Lead \<Rightarrow> 'r \<Rightarrow> (thrown + json) \<times> 'r"

text \<open>
  The HTTP library, as the client uses it: \<open>axios_get path email\<close> and
  \<open>axios_post path lead\<close> stand for the awaited call together with the reading of
  \<^verbatim>\<open>data\<close> off what it resolved with. \<open>Inr\<close> is that \<^verbatim>\<open>data\<close>; \<open>Inl\<close> is what was thrown,
  by a rejection or by the reading. Both may change the remote. The path is written
  without the base URL.
\<close>

definition lookupLead_request :: "'r axios \<Rightarrow> string \<Rightarrow> 'r \<Rightarrow> (thrown + json) \<times> 'r" where
  \<comment> \<open>the function that \<^verbatim>\<open>lookupLead\<close> passes to \<^verbatim>\<open>withRetry\<close>; \<open>Inr JNull\<close> is "not found"\<close>
  "lookupLead_request ax em r =
     (case axios_get ax ''/api/leads/lookup'' em r of (reply, r') \<Rightarrow>
        (let tried =
               (case reply of
                  Inl err \<Rightarrow> Inl err
                | Inr data \<Rightarrow>
                    if \<not> is_object data
                    then Inl (new_TypeError (''Cannot use 'in' operator to search for 'found' in ''
                                             @ text_of_primitive data))
                    else if get_prop ''found'' data = Some (JBool False) then Inr JNull
                    else validateLeadResponse data)
         in (case tried of
               Inl err \<Rightarrow>
                 if isAxiosError err \<and> status err = Some 404 then (Inr JNull, r') else (Inl err, r')
             | Inr v \<Rightarrow> (Inr v, r'))))"

definition lookupLead :: "'r axios \<Rightarrow> nat \<Rightarrow> string \<Rightarrow> 'r net \<Rightarrow> (thrown + json) \<times> 'r net" where
  "lookupLead ax BASE_DELAY em = withRetry BASE_DELAY (lookupLead_request ax em)"

definition post_request :: "'r axios \<Rightarrow> string \<Rightarrow> Lead \<Rightarrow> 'r \<Rightarrow> (thrown + json) \<times> 'r" where
  \<comment> \<open>the function that \<^verbatim>\<open>createLead\<close> and \<^verbatim>\<open>updateLead\<close> pass to \<^verbatim>\<open>withRetry\<close>\<close>
  "post_request ax path l r =
     (case axios_post ax path l r of (reply, r') \<Rightarrow>
        (case reply of
           Inl err \<Rightarrow> (Inl err, r')
         | Inr data \<Rightarrow> (validateLeadResponse data, r')))"

definition createLead :: "'r axios \<Rightarrow> nat \<Rightarrow> Lead \<Rightarrow> 'r net \<Rightarrow> (thrown + json) \<times> 'r net" where
  "createLead ax BASE_DELAY l = withRetry BASE_DELAY (post_request ax ''/api/leads/create'' l)"

definition updateLead :: "'r axios \<Rightarrow> nat \<Rightarrow> Lead \<Rightarrow> 'r net \<Rightarrow> (thrown + json) \<times> 'r net" where
  "updateLead ax BASE_DELAY l = withRetry BASE_DELAY (post_request ax ''/api/leads/update'' l)"


section \<open>The client as the processors see it\<close>

record 'w apiClient =
  lookup :: "string \<Rightarrow> 'w \<Rightarrow> (thrown + json) \<times> 'w"
  create :: "Lead \<Rightarrow> 'w \<Rightarrow> (thrown + json) \<times> 'w"
  update :: "Lead \<Rightarrow> 'w \<Rightarrow> (thrown + json) \<times> 'w"

text \<open>
  The three operations a processor imports from the client module, over a world \<^typ>\<open>'w\<close>
  that only they change. \<open>Inr JNull\<close> from \<open>lookup\<close> is "not found".
\<close>

definition apiClient_module :: "'r axios \<Rightarrow> nat \<Rightarrow> 'r net apiClient" where
  \<comment> \<open>the exports of apiClient.ts\<close>
  "apiClient_module ax BASE_DELAY =
     \<lparr> lookup = lookupLead ax BASE_DELAY,
       create = createLead ax BASE_DELAY,
       update = updateLead ax BASE_DELAY \<rparr>"

datatype call = Lookup string | Create Lead | Update Lead

record 'w io =
  world :: 'w
  calls :: "call list"

text \<open>The world together with the list of client operations called so far, oldest first.\<close>

definition call_lookup ::
  "'w apiClient \<Rightarrow> string \<Rightarrow> ('w, 'z) io_scheme \<Rightarrow> (thrown + json) \<times> ('w, 'z) io_scheme" where
  "call_lookup cl em st =
     (case lookup cl em (world st) of
        (res, w') \<Rightarrow> (res, st\<lparr>world := w', calls := calls st @ [Lookup em]\<rparr>))"

definition call_create ::
  "'w apiClient \<Rightarrow> Lead \<Rightarrow> ('w, 'z) io_scheme \<Rightarrow> (thrown + json) \<times> ('w, 'z) io_scheme" where
  "call_create cl l st =
     (case create cl l (world st) of
        (res, w') \<Rightarrow> (res, st\<lparr>world := w', calls := calls st @ [Create l]\<rparr>))"

definition call_update ::
  "'w apiClient \<Rightarrow> Lead \<Rightarrow> ('w, 'z) io_scheme \<Rightarrow> (thrown + json) \<times> ('w, 'z) io_scheme" where
  "call_update cl l st =
     (case update cl l (world st) of
        (res, w') \<Rightarrow> (res, st\<lparr>world := w', calls := calls st @ [Update l]\<rparr>))"

datatype Action = Created | Updated | Skipped | Error

record ProcessSummary =
  total_count :: nat
  created :: nat
  updated :: nat
  skipped :: nat
  errors_count :: nat


section \<open>The lead processor with \<^verbatim>\<open>leadsMatch\<close> (csvParser.ts, lines 64-186)\<close>

record ProcessResult =
  lead :: Lead
  action :: Action
  error :: "string option"

record ProcessOutput =
  results :: "ProcessResult list"
  summary :: ProcessSummary

definition string_receiver :: "string \<Rightarrow> string \<Rightarrow> json option \<Rightarrow> thrown + string" where
  \<comment> \<open>the receiver of a string method call \<open>expr.method()\<close>: a string, or the TypeError that
      the call throws on anything else (the messages are V8's)\<close>
  "string_receiver expr method v =
     (case v of
        Some (JStr s) \<Rightarrow> Inr s
      | None \<Rightarrow> Inl (new_TypeError (''Cannot read properties of undefined (reading ''
                                    @ [CHR 0x27] @ method @ [CHR 0x27] @ '')''))
      | Some JNull \<Rightarrow> Inl (new_TypeError (''Cannot read properties of null (reading ''
                                          @ [CHR 0x27] @ method @ [CHR 0x27] @ '')''))
      | Some x \<Rightarrow> Inl (new_TypeError (expr @ ''.'' @ method @ '' is not a function'')))"

definition leadsMatch :: "Lead \<Rightarrow> json \<Rightarrow> thrown + bool" where
  \<comment> \<open>the conjunction is evaluated left to right and stops at the first false conjunct\<close>
  "leadsMatch incoming existing =
     (if get_prop ''name'' existing \<noteq> Some (JStr (name incoming)) then Inr False
      else
        (case string_receiver ''existing.email'' ''toLowerCase'' (get_prop ''email'' existing) of
           Inl err \<Rightarrow> Inl err
         | Inr existing_email \<Rightarrow>
             if toLowerCase (email incoming) \<noteq> toLowerCase existing_email then Inr False
             else
               (case string_receiver ''company'' ''trim'' (get_prop ''company'' existing) of
                  Inl err \<Rightarrow> Inl err
                | Inr existing_company \<Rightarrow>
                    if normalizeCompany (company incoming) \<noteq> normalizeCompany existing_company
                    then Inr False
                    else Inr (get_prop ''source'' existing = Some (JStr (source incoming))))))"

record 'w run = "'w io" +
  seenEmails :: "string set"
  pushed :: "ProcessResult list"

text \<open>The state of the loop of \<^verbatim>\<open>processLeads\<close>; \<open>pushed\<close> is its \<^verbatim>\<open>results\<close> array.\<close>

definition push :: "ProcessResult \<Rightarrow> 'w run \<Rightarrow> 'w run" where
  "push r st = st\<lparr>pushed := pushed st @ [r]\<rparr>"

definition api_operations :: "'w apiClient \<Rightarrow> Lead \<Rightarrow> 'w run \<Rightarrow> (thrown + Action) \<times> 'w run" where
  \<comment> \<open>the \<^verbatim>\<open>try\<close> block: \<open>Inr a\<close> when it pushes a result with action \<open>a\<close>, \<open>Inl err\<close> when it throws\<close>
  "api_operations cl l st =
     (case call_lookup cl (email l) st of
        (Inl err, st1) \<Rightarrow> (Inl err, st1)
      | (Inr existing, st1) \<Rightarrow>
          if truthy existing then
            (case leadsMatch l existing of
               Inl err \<Rightarrow> (Inl err, st1)
             | Inr False \<Rightarrow>
                 (case call_update cl l st1 of
                    (Inl err, st2) \<Rightarrow> (Inl err, st2)
                  | (Inr u, st2) \<Rightarrow> (Inr Updated, st2))
             | Inr True \<Rightarrow> (Inr Skipped, st1))
          else
            (case call_create cl l st1 of
               (Inl err, st2) \<Rightarrow> (Inl err, st2)
             | (Inr c, st2) \<Rightarrow> (Inr Created, st2)))"

definition processLead :: "'w apiClient \<Rightarrow> Lead \<Rightarrow> 'w run \<Rightarrow> 'w run" where
  \<comment> \<open>the body of the loop of \<^verbatim>\<open>processLeads\<close>\<close>
  "processLead cl l st =
     (let validation = validateLead l
      in if \<not> isValid validation
         then push \<lparr> lead = l, action = Error, error = Some (join ''; '' (errors validation)) \<rparr> st
         else
           (let emailKey = toLowerCase (email l)
            in if emailKey \<in> seenEmails st
               then push \<lparr> lead = l, action = Skipped, error = None \<rparr> st
               else
                 (case api_operations cl l (st\<lparr>seenEmails := insert emailKey (seenEmails st)\<rparr>) of
                    (Inr a, st') \<Rightarrow> push \<lparr> lead = l, action = a, error = None \<rparr> st'
                  | (Inl err, st') \<Rightarrow>
                      if status err = Some 409
                      then push \<lparr> lead = l, action = Skipped, error = None \<rparr> st'
                      else push \<lparr> lead = l, action = Error, error = Some (error_message err) \<rparr> st')))"

definition processLeads_loop :: "'w apiClient \<Rightarrow> Lead list \<Rightarrow> 'w run \<Rightarrow> 'w run" where
  "processLeads_loop cl leads st = fold (processLead cl) leads st"

definition start :: "'w \<Rightarrow> 'w run" where
  "start w = \<lparr> world = w, calls = [], seenEmails = {}, pushed = [] \<rparr>"

definition summary_of :: "ProcessResult list \<Rightarrow> ProcessSummary" where
  "summary_of rs =
     \<lparr> total_count = length rs,
       created = length (filter (\<lambda>r. action r = Created) rs),
       updated = length (filter (\<lambda>r. action r = Updated) rs),
       skipped = length (filter (\<lambda>r. action r = Skipped) rs),
       errors_count = length (filter (\<lambda>r. action r = Error) rs) \<rparr>"

definition processLeads :: "'w apiClient \<Rightarrow> Lead list \<Rightarrow> 'w \<Rightarrow> ProcessOutput \<times> 'w io" where
  "processLeads cl leads w =
     (let st = processLeads_loop cl leads (start w)
      in (\<lparr> results = pushed st, summary = summary_of (pushed st) \<rparr>,
          \<lparr> world = world st, calls = calls st \<rparr>))"


section \<open>The lead processor with \<^verbatim>\<open>processOneLead\<close> (unnamed/part_001)\<close>

record LeadResult =
  email_r :: string
  action_r :: Action
  details :: string
  errors_r :: "string list option"
  lead_r :: Lead

definition getErrorMessage :: "thrown \<Rightarrow> string" where
  "getErrorMessage err = (if instanceofError err then message err else ''Unknown error'')"

definition leadsAreIdentical :: "json \<Rightarrow> Lead \<Rightarrow> bool" where
  \<comment> \<open>\<^verbatim>\<open>===\<close> on each of the four keys, the second argument being the incoming lead\<close>
  "leadsAreIdentical lead1 lead2 =
     list_all (\<lambda>key. get_prop key lead1 = get_prop key (json_of_lead lead2))
       [''name'', ''email'', ''company'', ''source'']"

definition createResult :: "Lead \<Rightarrow> Action \<Rightarrow> string \<Rightarrow> string list option \<Rightarrow> LeadResult" where
  "createResult l a d errs =
     \<lparr> email_r = email l, action_r = a, details = d, errors_r = errs, lead_r = l \<rparr>"

definition handleExistingLead ::
  "'w apiClient \<Rightarrow> Lead \<Rightarrow> json \<Rightarrow> 'w io \<Rightarrow> LeadResult \<times> 'w io" where
  "handleExistingLead cl l existingLead st =
     (if leadsAreIdentical existingLead l
      then (createResult l Skipped ''Lead data identical'' None, st)
      else
        (case call_update cl l st of
           (Inr u, st') \<Rightarrow> (createResult l Updated ''Lead updated successfully'' None, st')
         | (Inl err, st') \<Rightarrow>
             (createResult l Error ''API update failed'' (Some [getErrorMessage err]), st')))"

definition handleNewLead :: "'w apiClient \<Rightarrow> Lead \<Rightarrow> 'w io \<Rightarrow> LeadResult \<times> 'w io" where
  "handleNewLead cl l st =
     (case call_create cl l st of
        (Inr c, st') \<Rightarrow> (createResult l Created ''Lead created successfully'' None, st')
      | (Inl err, st') \<Rightarrow>
          (createResult l Error ''API create failed'' (Some [getErrorMessage err]), st'))"

definition processOneLead ::
  "'w apiClient \<Rightarrow> Lead \<Rightarrow> string set \<times> 'w io \<Rightarrow> LeadResult \<times> string set \<times> 'w io" where
  \<comment> \<open>the set is \<^verbatim>\<open>processedEmails\<close>, which the function updates in place\<close>
  "processOneLead cl l = (\<lambda>(processedEmails, st).
     (let validation = validateLead l
      in if \<not> isValid validation
         then (createResult l Error ''Validation failed'' (Some (errors validation)),
               processedEmails, st)
         else
           (let emailLower = toLowerCase (email l)
            in if emailLower \<in> processedEmails
               then (createResult l Skipped ''Duplicate email in batch''
                       (Some [''Duplicate email in batch'']),
                     processedEmails, st)
               else
                 (case call_lookup cl (email l) st of
                    (Inl err, st1) \<Rightarrow>
                      (createResult l Error ''API lookup failed'' (Some [getErrorMessage err]),
                       insert emailLower processedEmails, st1)
                  | (Inr existingLead, st1) \<Rightarrow>
                      (case (if truthy existingLead then handleExistingLead cl l existingLead st1
                             else handleNewLead cl l st1) of
                         (res, st2) \<Rightarrow> (res, insert emailLower processedEmails, st2))))))"

definition calculateSummary :: "LeadResult list \<Rightarrow> ProcessSummary" where
  "calculateSummary rs =
     \<lparr> total_count = length rs,
       created = length (filter (\<lambda>r. action_r r = Created) rs),
       updated = length (filter (\<lambda>r. action_r r = Updated) rs),
       skipped = length (filter (\<lambda>r. action_r r = Skipped) rs),
       errors_count = length (filter (\<lambda>r. action_r r = Error) rs) \<rparr>"

fun processLeads2_loop ::
  "'w apiClient \<Rightarrow> Lead list \<Rightarrow> LeadResult list \<times> string set \<times> 'w io
     \<Rightarrow> LeadResult list \<times> string set \<times> 'w io" where
  "processLeads2_loop cl [] acc = acc"
| "processLeads2_loop cl (l # ls) (rs, seen_st) =
     (case processOneLead cl l seen_st of
        (result, seen_st') \<Rightarrow> processLeads2_loop cl ls (rs @ [result], seen_st'))"

definition processLeads2 ::
  "'w apiClient \<Rightarrow> Lead list \<Rightarrow> 'w \<Rightarrow> (LeadResult list \<times> ProcessSummary) \<times> 'w io" where
  \<comment> \<open>\<^verbatim>\<open>processLeads\<close> of unnamed/part_001; nothing in \<^verbatim>\<open>processOneLead\<close> throws, so the
      \<^verbatim>\<open>catch\<close> around it is never entered\<close>
  "processLeads2 cl leads w =
     (case processLeads2_loop cl leads ([], {}, \<lparr> world = w, calls = [] \<rparr>) of
        (rs, seen, st) \<Rightarrow> ((rs, calculateSummary rs), st))"


section \<open>Test doubles, after the mocks of the test suites\<close>

record mocks =
  lookup_replies :: "(thrown + json) list"
  create_replies :: "(thrown + json) list"
  update_replies :: "(thrown + json) list"

definition next_reply :: "(thrown + json) list \<Rightarrow> (thrown + json) \<times> (thrown + json) list" where
  \<comment> \<open>a mocked operation answers with its queued replies in order; once they are used up it
      resolves with \<^verbatim>\<open>undefined\<close>, which a processor only tests for truth (after a lookup)
      or drops (after a create or an update), as it would \<open>JNull\<close>\<close>
  "next_reply q = (case q of [] \<Rightarrow> (Inr JNull, []) | x # xs \<Rightarrow> (x, xs))"

definition mockedApiClient :: "mocks apiClient" where
  "mockedApiClient =
     \<lparr> lookup = (\<lambda>em m. case next_reply (lookup_replies m) of (x, q) \<Rightarrow> (x, m\<lparr>lookup_replies := q\<rparr>)),
       create = (\<lambda>l m. case next_reply (create_replies m) of (x, q) \<Rightarrow> (x, m\<lparr>create_replies := q\<rparr>)),
       update = (\<lambda>l m. case next_reply (update_replies m) of (x, q) \<Rightarrow> (x, m\<lparr>update_replies := q\<rparr>)) \<rparr>"

record axios_mocks =
  get_replies :: "(thrown + json) list"
  post_replies :: "(thrown + json) list"

definition next_response :: "(thrown + json) list \<Rightarrow> (thrown + json) \<times> (thrown + json) list" where
  \<comment> \<open>a mocked \<^verbatim>\<open>axios.get\<close> or \<^verbatim>\<open>axios.post\<close> answers with its queued replies in order; once
      they are used up it resolves with \<^verbatim>\<open>undefined\<close>, and the client's reading of \<^verbatim>\<open>data\<close>
      off that throws\<close>
  "next_response q =
     (case q of
        [] \<Rightarrow> (Inl (new_TypeError ''Cannot read properties of undefined (reading 'data')''), [])
      | x # xs \<Rightarrow> (x, xs))"

definition mockedAxios :: "axios_mocks axios" where
  "mockedAxios =
     \<lparr> axios_get = (\<lambda>path em m. case next_response (get_replies m) of (x, q) \<Rightarrow> (x, m\<lparr>get_replies := q\<rparr>)),
       axios_post = (\<lambda>path l m. case next_response (post_replies m) of (x, q) \<Rightarrow> (x, m\<lparr>post_replies := q\<rparr>)) \<rparr>"

definition status_error :: "nat \<Rightarrow> thrown" where
  \<comment> \<open>the rejection \<^verbatim>\<open>{ isAxiosError: true, response: { status: s, data: {} } }\<close> of the client tests\<close>
  "status_error s =
     \<lparr> instanceofError = False, message = [], asString = ''[object Object]'',
       isAxiosError = True, code = None, status = Some s \<rparr>"

definition mockLead :: Lead where
  "mockLead = \<lparr> name = ''Jane Doe'', email = ''jane@example.com'',
                company = ''Acme Corp'', source = ''LinkedIn'' \<rparr>"

definition invalidLead :: Lead where
  "invalidLead = mockLead\<lparr>name := [], email := ''bademail''\<rparr>"

definition no_replies :: mocks where
  "no_replies = \<lparr> lookup_replies = [], create_replies = [], update_replies = [] \<rparr>"

section \<open>What the specification says of the retry wrapper\<close>

definition wait_after :: "nat \<Rightarrow> nat \<Rightarrow> wire_event list" where
  \<comment> \<open>the wait that follows the failed attempt \<open>attempt\<close>; a delay of zero is no wait\<close>
  "wait_after base_delay attempt =
     (if base_delay * 2 ^ (attempt - 1) > 0 then [Sleep (base_delay * 2 ^ (attempt - 1))] else [])"

fun backoff_trace :: "nat \<Rightarrow> nat \<Rightarrow> wire_event list" where
  \<comment> \<open>\<open>k\<close> attempts with the waits between them\<close>
  "backoff_trace base_delay 0 = []"
| "backoff_trace base_delay (Suc 0) = [Attempt 1]"
| "backoff_trace base_delay (Suc (Suc k)) =
     backoff_trace base_delay (Suc k) @ wait_after base_delay (Suc k) @ [Attempt (Suc (Suc k))]"

definition retryable_by_spec :: "thrown \<Rightarrow> bool" where
  \<comment> \<open>"a connection-timeout class failure, an explicit rate-limit signal, or a server-side
      transient failure of the 5xx status class"\<close>
  "retryable_by_spec err =
     (code err = Some ''ECONNABORTED'' \<or> code err = Some ''ETIMEDOUT''
      \<or> status err = Some 429
      \<or> (case status err of None \<Rightarrow> False | Some s \<Rightarrow> 500 \<le> s \<and> s < 600))"

section \<open>What the specification says of a reply\<close>

definition unwrapped :: "json \<Rightarrow> json" where
  \<comment> \<open>"after optional unwrapping of a nested lead field"\<close>
  "unwrapped data =
     (case get_prop ''lead'' data of Some l \<Rightarrow> if is_object l then l else data | None \<Rightarrow> data)"

definition exposes_name_and_email :: "json \<Rightarrow> bool" where
  \<comment> \<open>"the reply must expose at least name and email"\<close>
  "exposes_name_and_email data =
     (is_object data \<and> get_prop ''name'' (unwrapped data) \<noteq> None
      \<and> get_prop ''email'' (unwrapped data) \<noteq> None)"

definition not_found_flag :: json where
  \<comment> \<open>the reply \<^verbatim>\<open>{ found: false }\<close> of the sample server\<close>
  "not_found_flag = JObj [(''found'', JBool False)]"

definition changedLead :: Lead where
  "changedLead = mockLead\<lparr>company := ''New Corp''\<rparr>"

definition existingLead :: Lead where
  "existingLead = mockLead\<lparr>company := ''Old Corp''\<rparr>"

definition update_fails :: mocks where
  \<comment> \<open>the lookup finds the record with the old company, the update is rejected\<close>
  "update_fails =
     \<lparr> lookup_replies = [Inr (json_of_lead existingLead)], create_replies = [],
       update_replies = [Inl (new_Error ''API update failed'')] \<rparr>"

definition update_conflicts :: mocks where
  "update_conflicts =
     \<lparr> lookup_replies = [Inr (json_of_lead existingLead)], create_replies = [],
       update_replies = [Inl (status_error 409)] \<rparr>"

definition update_succeeds :: mocks where
  "update_succeeds =
     \<lparr> lookup_replies = [Inr (json_of_lead existingLead)], create_replies = [],
       update_replies = [Inr (json_of_lead changedLead)] \<rparr>"

definition namelessLead :: Lead where
  \<comment> \<open>the email of \<open>mockLead\<close> on a record that fails validation\<close>
  "namelessLead = mockLead\<lparr>name := []\<rparr>"

definition janeAgain :: Lead where
  \<comment> \<open>a second record with the email of \<open>mockLead\<close>, as in the processor's duplicate test\<close>
  "janeAgain = mockLead\<lparr>name := ''Jane Again''\<rparr>"

definition lookup_fails :: mocks where
  "lookup_fails =
     \<lparr> lookup_replies = [Inl (new_Error ''API lookup failed'')], create_replies = [],
       update_replies = [] \<rparr>"

definition foo_bar :: json where
  \<comment> \<open>the reply \<^verbatim>\<open>{ foo: "bar" }\<close> of the client's malformed-response test\<close>
  "foo_bar = JObj [(''foo'', JStr ''bar'')]"

definition found_without_company :: json where
  \<comment> \<open>a reply \<^verbatim>\<open>{ found: true, lead: { name, email } }\<close> with no company and no source\<close>
  "found_without_company =
     JObj [(''found'', JBool True),
           (''lead'', JObj [(''name'', JStr ''Jane Doe''), (''email'', JStr ''jane@example.com'')])]"

definition shoutedLead :: Lead where
  \<comment> \<open>\<open>mockLead\<close> as a remote that stores emails in capitals returns it\<close>
  "shoutedLead = mockLead\<lparr>email := ''JANE@EXAMPLE.COM''\<rparr>"

definition found_in_capitals :: mocks where
  \<comment> \<open>the lookup finds \<open>shoutedLead\<close>, an update succeeds\<close>
  "found_in_capitals =
     \<lparr> lookup_replies = [Inr (json_of_lead shoutedLead)], create_replies = [],
       update_replies = [Inr (json_of_lead mockLead)] \<rparr>"

definition flat_without_company :: json where
  \<comment> \<open>a flat reply \<^verbatim>\<open>{ name, email, source }\<close> that agrees with \<open>mockLead\<close> and has no company\<close>
  "flat_without_company =
     JObj [(''name'', JStr ''Jane Doe''), (''email'', JStr ''jane@example.com''),
           (''source'', JStr ''LinkedIn'')]"

definition found_flat_without_company :: mocks where
  \<comment> \<open>the lookup finds \<open>flat_without_company\<close>, an update would succeed\<close>
  "found_flat_without_company =
     \<lparr> lookup_replies = [Inr flat_without_company], create_replies = [],
       update_replies = [Inr (json_of_lead mockLead)] \<rparr>"

definition name_hides_toString :: json where
  \<comment> \<open>the reply \<^verbatim>\<open>{ lead: { name: { toString: null }, email: "jane@example.com" } }\<close>\<close>
  "name_hides_toString =
     JObj [(''lead'', JObj [(''name'', JObj [(''toString'', JNull)]),
                            (''email'', JStr ''jane@example.com'')])]"


section \<open>Every record gets one outcome\<close>

lemma call_lookup_run:
  "call_lookup cl em (st :: 'w run) = (res, st') \<Longrightarrow>
     lookup cl em (world st) = (res, world st') \<and> calls st' = calls st @ [Lookup em]
     \<and> seenEmails st' = seenEmails st \<and> pushed st' = pushed st"
  by (auto simp: call_lookup_def split: prod.splits)

lemma call_create_run:
  "call_create cl l (st :: 'w run) = (res, st') \<Longrightarrow>
     create cl l (world st) = (res, world st') \<and> calls st' = calls st @ [Create l]
     \<and> seenEmails st' = seenEmails st \<and> pushed st' = pushed st"
  by (auto simp: call_create_def split: prod.splits)

lemma call_update_run:
  "call_update cl l (st :: 'w run) = (res, st') \<Longrightarrow>
     update cl l (world st) = (res, world st') \<and> calls st' = calls st @ [Update l]
     \<and> seenEmails st' = seenEmails st \<and> pushed st' = pushed st"
  by (auto simp: call_update_def split: prod.splits)

lemma api_operations_frame:
  assumes "api_operations cl l st = (res, st')"
  shows "seenEmails st' = seenEmails st \<and> pushed st' = pushed st
         \<and> (\<exists>rest. calls st' = calls st @ Lookup (email l) # rest
                    \<and> (rest = [] \<or> rest = [Create l] \<or> rest = [Update l]))"
  using assms unfolding api_operations_def
  by (auto split: prod.splits sum.splits if_splits bool.splits
           dest!: call_lookup_run call_create_run call_update_run)






lemma filter_action_length:
  "length (filter (\<lambda>r. f r = a) rs) = length (filter (\<lambda>x. x = a) (map f rs))"
  by (simp add: filter_map o_def)


lemma calculateSummary_actions:
  "map action_r rs = map action_r rs' \<Longrightarrow> calculateSummary rs = calculateSummary rs'"
proof -
  assume same: "map action_r rs = map action_r rs'"
  then have len: "length rs = length rs'"
    by (rule map_eq_imp_length_eq)
  show ?thesis
    unfolding calculateSummary_def filter_action_length [of action_r] same len ..
qed




section \<open>Validation\<close>

lemma sublist_join: "m \<in> set ms \<Longrightarrow> sublist m (join sep ms)"
proof (induction sep ms rule: join.induct)
  case (1 sep)
  then show ?case by simp
next
  case (2 sep x)
  then show ?case by simp
next
  case (3 sep x y ys)
  show ?case
  proof (cases "m = x")
    case True
    have "join sep (x # y # ys) = [] @ x @ (sep @ join sep (y # ys))" by simp
    then show ?thesis unfolding True sublist_def by blast
  next
    case False
    with 3 have "sublist m (join sep (y # ys))" by simp
    then obtain ps ss where "join sep (y # ys) = ps @ m @ ss" unfolding sublist_def by blast
    then have "join sep (x # y # ys) = (x @ sep @ ps) @ m @ ss" by simp
    then show ?thesis unfolding sublist_def by blast
  qed
qed

lemma source_message_eq:
  "source_message = ''Source must be one of: LinkedIn, Webinar, Website, Conference, Referral, Twitter''"
  by (simp add: source_message_def VALID_SOURCES_def)

lemma validateLead_errors:
  "errors (validateLead l) =
       (if isEmpty (name l) then [''Name is required''] else [])
     @ (if isEmpty (company l) then [''Company is required''] else [])
     @ (if email l = [] \<or> \<not> EMAIL_REGEX_test (email l) then [''Invalid email format''] else [])
     @ (if isEmpty (source l) then [''Source is required'']
        else if source l \<notin> set VALID_SOURCES then [source_message] else [])"
  by (simp add: validateLead_def Let_def)

lemma validateLead_isValid: "isValid (validateLead l) = (errors (validateLead l) = [])"
  by (simp add: validateLead_def Let_def)

lemma validateLead_messages1:
  "(''Name is required'' \<in> set (errors (validateLead l))) = isEmpty (name l)"
  by (simp add: validateLead_errors source_message_eq)
lemma validateLead_messages2:
  "(''Company is required'' \<in> set (errors (validateLead l))) = isEmpty (company l)"
  by (simp add: validateLead_errors source_message_eq)
lemma validateLead_messages3:
  "(''Invalid email format'' \<in> set (errors (validateLead l))) = (email l = [] \<or> \<not> EMAIL_REGEX_test (email l))"
  by (simp add: validateLead_errors source_message_eq) blast
lemma validateLead_messages4:
  "(''Source is required'' \<in> set (errors (validateLead l))) = isEmpty (source l)"
  by (simp add: validateLead_errors source_message_eq)
lemma validateLead_messages5:
  "(source_message \<in> set (errors (validateLead l))) = (\<not> isEmpty (source l) \<and> source l \<notin> set VALID_SOURCES)"
  by (simp add: validateLead_errors source_message_eq)

lemma dropWhile_all: "(\<forall>x \<in> set (dropWhile P s). P x) \<longleftrightarrow> (\<forall>x \<in> set s. P x)"
  by (induction s) auto

lemma trim_Nil_iff: "trim s = [] \<longleftrightarrow> (\<forall>c \<in> set s. isWhitespace c)"
  by (simp add: trim_def dropWhile_eq_Nil_conv dropWhile_all)

lemma trim_Nil [simp]: "trim [] = []"
  by (simp add: trim_def)

lemma collapse_whitespace_Nil_iff: "collapse_whitespace s = [] \<longleftrightarrow> s = []"
  by (cases s) auto

lemma isEmpty_iff: "isEmpty v \<longleftrightarrow> trim v = []"
  by (auto simp: isEmpty_def)

lemma validators_agree: "isValid (validateLead2 l) = isValid (validateLead l)"
  by (simp add: validateLead_def validateLead2_def Let_def isEmpty_iff normalizeCompany_def
      collapse_whitespace_Nil_iff)

text \<open>
  Claim C2. A lead that fails validation gets, from both processors, an outcome with the
  action \<open>Error\<close> (the rejected record) that carries every violation message: the processor
  with \<^verbatim>\<open>leadsMatch\<close> joins them with \<^verbatim>\<open>"; "\<close>, so each message is a part of the
  resulting text, and the processor with \<^verbatim>\<open>processOneLead\<close> keeps the list. The validator
  reports the message of each rule exactly when the rule is violated, not only the first.
  Nothing else changes: the world, the list of client calls and the set of seen emails are
  as before, so no lookup, create or update is made for the record.
\<close>

theorem invalid_lead_rejected_without_calls:
  assumes "\<not> isValid (validateLead l)"
  shows "processLead cl l st
           = st\<lparr>pushed := pushed st @ [\<lparr> lead = l, action = Error,
                                         error = Some (join ''; '' (errors (validateLead l))) \<rparr>]\<rparr>
       \<and> processOneLead cl l (seen, io)
           = (\<lparr> email_r = email l, action_r = Error, details = ''Validation failed'',
                errors_r = Some (errors (validateLead l)), lead_r = l \<rparr>, seen, io)
       \<and> errors (validateLead l) \<noteq> []
       \<and> (\<forall>m \<in> set (errors (validateLead l)). sublist m (join ''; '' (errors (validateLead l))))
       \<and> (''Name is required'' \<in> set (errors (validateLead l))) = isEmpty (name l)
       \<and> (''Company is required'' \<in> set (errors (validateLead l))) = isEmpty (company l)
       \<and> (''Invalid email format'' \<in> set (errors (validateLead l)))
           = (email l = [] \<or> \<not> EMAIL_REGEX_test (email l))
       \<and> (''Source is required'' \<in> set (errors (validateLead l))) = isEmpty (source l)
       \<and> (source_message \<in> set (errors (validateLead l)))
           = (\<not> isEmpty (source l) \<and> source l \<notin> set VALID_SOURCES)"
proof -
  have a: "processLead cl l st
           = st\<lparr>pushed := pushed st @ [\<lparr> lead = l, action = Error,
                                         error = Some (join ''; '' (errors (validateLead l))) \<rparr>]\<rparr>"
    using assms by (simp add: processLead_def push_def)
  have b: "processOneLead cl l (seen, io)
           = (\<lparr> email_r = email l, action_r = Error, details = ''Validation failed'',
                errors_r = Some (errors (validateLead l)), lead_r = l \<rparr>, seen, io)"
    using assms by (simp add: processOneLead_def createResult_def)
  have c: "errors (validateLead l) \<noteq> []"
    using assms by (simp add: validateLead_isValid)
  have d: "\<forall>m \<in> set (errors (validateLead l)). sublist m (join ''; '' (errors (validateLead l)))"
    by (simp add: sublist_join)
  show ?thesis
    by (intro conjI a b c d validateLead_messages1 validateLead_messages2 validateLead_messages3
        validateLead_messages4 validateLead_messages5)
qed

theorem invalid_lead_rejected_without_calls_witness:
  "\<not> isValid (validateLead invalidLead)
   \<and> processLead mockedApiClient invalidLead (start no_replies)
       = (start no_replies)\<lparr>pushed := [\<lparr> lead = invalidLead, action = Error,
                                          error = Some ''Name is required; Invalid email format'' \<rparr>]\<rparr>
   \<and> calls (processLead mockedApiClient invalidLead (start no_replies)) = []
   \<and> world (processLead mockedApiClient invalidLead (start no_replies)) = no_replies"
proof -
  have h: "\<not> isValid (validateLead invalidLead)"
    by code_simp
  have e: "errors (validateLead invalidLead) = [''Name is required'', ''Invalid email format'']"
    by code_simp
  show ?thesis
    using h e invalid_lead_rejected_without_calls [OF h, of mockedApiClient "start no_replies"]
    by (simp add: start_def)
qed


section \<open>The retry wrapper\<close>

lemma string_of_nat_3: "string_of_nat MAX_RETRIES = ''3''"
  by (simp add: string_of_nat.simps MAX_RETRIES_def digit_char_def)

lemma exhausted_Some:
  "exhausted (Some e) = new_Error (''Max retries exhausted after 3 attempts. Last error: '' @ error_message e)"
  by (simp add: exhausted_def string_of_nat_3)

lemma net_update_all [simp]:
  "(n :: 'r net)\<lparr>remote := r, wire := w\<rparr> = \<lparr>remote = r, wire = w\<rparr>"
  by (cases n) simp

lemma withRetry_loop_step:
  assumes "attempt \<le> MAX_RETRIES"
  shows "withRetry_loop b fn attempt le n =
     (case fn (remote n) of (res, r') \<Rightarrow>
        (case res of
           Inr v \<Rightarrow> (Inr v, \<lparr>remote = r', wire = wire n @ [Attempt attempt]\<rparr>)
         | Inl err \<Rightarrow>
             if \<not> isRetryable err then (Inl err, \<lparr>remote = r', wire = wire n @ [Attempt attempt]\<rparr>)
             else if attempt = MAX_RETRIES
             then (Inl (exhausted (Some err)), \<lparr>remote = r', wire = wire n @ [Attempt attempt]\<rparr>)
             else withRetry_loop b fn (Suc attempt) (Some err)
                    \<lparr>remote = r', wire = wire n @ [Attempt attempt] @ wait_after b attempt\<rparr>))"
  using assms
  by (subst withRetry_loop.simps)
     (simp add: Let_def wait_after_def split: prod.splits sum.splits)

lemma withRetry_loop_3:
  "withRetry_loop b fn 3 le n =
     (case fn (remote n) of (res, r') \<Rightarrow>
        (case res of
           Inr v \<Rightarrow> (Inr v, \<lparr>remote = r', wire = wire n @ [Attempt 3]\<rparr>)
         | Inl err \<Rightarrow> (if isRetryable err then Inl (exhausted (Some err)) else Inl err,
                       \<lparr>remote = r', wire = wire n @ [Attempt 3]\<rparr>)))"
  using withRetry_loop_step [of 3 b fn le n]
  by (simp add: MAX_RETRIES_def split: prod.splits sum.splits)

lemma withRetry_loop_2:
  "withRetry_loop b fn 2 le n =
     (case fn (remote n) of (res, r') \<Rightarrow>
        (case res of
           Inr v \<Rightarrow> (Inr v, \<lparr>remote = r', wire = wire n @ [Attempt 2]\<rparr>)
         | Inl err \<Rightarrow>
             if isRetryable err
             then withRetry_loop b fn 3 (Some err)
                    \<lparr>remote = r', wire = wire n @ [Attempt 2] @ wait_after b 2\<rparr>
             else (Inl err, \<lparr>remote = r', wire = wire n @ [Attempt 2]\<rparr>)))"
proof -
  have "Suc 2 = 3" by simp
  then show ?thesis
    using withRetry_loop_step [of 2 b fn le n]
    by (simp add: MAX_RETRIES_def split: prod.splits sum.splits)
qed

lemma withRetry_loop_1:
  "withRetry_loop b fn 1 le n =
     (case fn (remote n) of (res, r') \<Rightarrow>
        (case res of
           Inr v \<Rightarrow> (Inr v, \<lparr>remote = r', wire = wire n @ [Attempt 1]\<rparr>)
         | Inl err \<Rightarrow>
             if isRetryable err
             then withRetry_loop b fn 2 (Some err)
                    \<lparr>remote = r', wire = wire n @ [Attempt 1] @ wait_after b 1\<rparr>
             else (Inl err, \<lparr>remote = r', wire = wire n @ [Attempt 1]\<rparr>)))"
proof -
  have "Suc 1 = 2" by simp
  then show ?thesis
    using withRetry_loop_step [of 1 b fn le n]
    by (simp only: MAX_RETRIES_def split: prod.splits sum.splits) simp
qed

lemma withRetry_unfold:
  "withRetry b fn n =
     (case fn (remote n) of (res, r') \<Rightarrow>
        (case res of
           Inr v \<Rightarrow> (Inr v, \<lparr>remote = r', wire = wire n @ [Attempt 1]\<rparr>)
         | Inl err \<Rightarrow>
             if isRetryable err
             then withRetry_loop b fn 2 (Some err)
                    \<lparr>remote = r', wire = wire n @ [Attempt 1] @ wait_after b 1\<rparr>
             else (Inl err, \<lparr>remote = r', wire = wire n @ [Attempt 1]\<rparr>)))"
  unfolding withRetry_def by (rule withRetry_loop_1)

lemma backoff_trace_1: "backoff_trace b 1 = [Attempt 1]"
  by simp

lemma backoff_trace_2: "backoff_trace b 2 = [Attempt 1] @ wait_after b 1 @ [Attempt 2]"
  using backoff_trace.simps(3) [of b 0] by (simp add: numeral_2_eq_2)

lemma backoff_trace_3:
  "backoff_trace b 3 = [Attempt 1] @ wait_after b 1 @ [Attempt 2] @ wait_after b 2 @ [Attempt 3]"
  using backoff_trace.simps(3) [of b 1] backoff_trace_2 [of b]
  by (simp add: numeral_3_eq_3 numeral_2_eq_2)


text \<open>The complete behaviour of the wrapper, by the outcomes of up to three calls.\<close>

lemma withRetry_cases:
  obtains
    (ok1) v r1 where "fn (remote n) = (Inr v, r1)"
      "withRetry b fn n = (Inr v, \<lparr>remote = r1, wire = wire n @ backoff_trace b 1\<rparr>)"
  | (stop1) e1 r1 where "fn (remote n) = (Inl e1, r1)" "\<not> isRetryable e1"
      "withRetry b fn n = (Inl e1, \<lparr>remote = r1, wire = wire n @ backoff_trace b 1\<rparr>)"
  | (ok2) e1 r1 v r2 where "fn (remote n) = (Inl e1, r1)" "isRetryable e1" "fn r1 = (Inr v, r2)"
      "withRetry b fn n = (Inr v, \<lparr>remote = r2, wire = wire n @ backoff_trace b 2\<rparr>)"
  | (stop2) e1 r1 e2 r2 where "fn (remote n) = (Inl e1, r1)" "isRetryable e1"
      "fn r1 = (Inl e2, r2)" "\<not> isRetryable e2"
      "withRetry b fn n = (Inl e2, \<lparr>remote = r2, wire = wire n @ backoff_trace b 2\<rparr>)"
  | (ok3) e1 r1 e2 r2 v r3 where "fn (remote n) = (Inl e1, r1)" "isRetryable e1"
      "fn r1 = (Inl e2, r2)" "isRetryable e2" "fn r2 = (Inr v, r3)"
      "withRetry b fn n = (Inr v, \<lparr>remote = r3, wire = wire n @ backoff_trace b 3\<rparr>)"
  | (stop3) e1 r1 e2 r2 e3 r3 where "fn (remote n) = (Inl e1, r1)" "isRetryable e1"
      "fn r1 = (Inl e2, r2)" "isRetryable e2" "fn r2 = (Inl e3, r3)" "\<not> isRetryable e3"
      "withRetry b fn n = (Inl e3, \<lparr>remote = r3, wire = wire n @ backoff_trace b 3\<rparr>)"
  | (exhausted3) e1 r1 e2 r2 e3 r3 where "fn (remote n) = (Inl e1, r1)" "isRetryable e1"
      "fn r1 = (Inl e2, r2)" "isRetryable e2" "fn r2 = (Inl e3, r3)" "isRetryable e3"
      "withRetry b fn n = (Inl (exhausted (Some e3)), \<lparr>remote = r3, wire = wire n @ backoff_trace b 3\<rparr>)"
proof -
  obtain x1 r1 where c1: "fn (remote n) = (x1, r1)" by (cases "fn (remote n)")
  obtain x2 r2 where c2: "fn r1 = (x2, r2)" by (cases "fn r1")
  obtain x3 r3 where c3: "fn r2 = (x3, r3)" by (cases "fn r2")
  show ?thesis
  proof (cases x1)
    case (Inr v)
    with c1 show ?thesis
      by (intro ok1 [of v r1]) (simp_all add: withRetry_unfold)
  next
    case e1: (Inl e1)
    show ?thesis
    proof (cases "isRetryable e1")
      case False
      with c1 e1 show ?thesis
        by (intro stop1 [of e1 r1]) (simp_all add: withRetry_unfold)
    next
      case t1: True
      show ?thesis
      proof (cases x2)
        case (Inr v)
        with c1 c2 e1 t1 show ?thesis
          by (intro ok2 [of e1 r1 v r2])
             (simp_all add: withRetry_unfold withRetry_loop_2 backoff_trace_2)
      next
        case e2: (Inl e2)
        show ?thesis
        proof (cases "isRetryable e2")
          case False
          with c1 c2 e1 t1 e2 show ?thesis
            by (intro stop2 [of e1 r1 e2 r2])
               (simp_all add: withRetry_unfold withRetry_loop_2 backoff_trace_2)
        next
          case t2: True
          show ?thesis
          proof (cases x3)
            case (Inr v)
            with c1 c2 c3 e1 t1 e2 t2 show ?thesis
              by (intro ok3 [of e1 r1 e2 r2 v r3])
                 (simp_all add: withRetry_unfold withRetry_loop_2 withRetry_loop_3
                    backoff_trace_3)
          next
            case e3: (Inl e3)
            show ?thesis
            proof (cases "isRetryable e3")
              case False
              with c1 c2 c3 e1 t1 e2 t2 e3 show ?thesis
                by (intro stop3 [of e1 r1 e2 r2 e3 r3])
                   (simp_all add: withRetry_unfold withRetry_loop_2 withRetry_loop_3
                      backoff_trace_3)
            next
              case True
              with c1 c2 c3 e1 t1 e2 t2 e3 show ?thesis
                by (intro exhausted3 [of e1 r1 e2 r2 e3 r3])
                   (simp_all add: withRetry_unfold withRetry_loop_2 withRetry_loop_3
                      backoff_trace_3)
            qed
          qed
        qed
      qed
    qed
  qed
qed

lemma withRetry_trace:
  "\<exists>k. 1 \<le> k \<and> k \<le> MAX_RETRIES \<and> wire (snd (withRetry b fn n)) = wire n @ backoff_trace b k"
proof (cases rule: withRetry_cases [of fn n b])
  case ok1 then show ?thesis by (intro exI [of _ 1]) (simp add: MAX_RETRIES_def)
next
  case stop1 then show ?thesis by (intro exI [of _ 1]) (simp add: MAX_RETRIES_def)
next
  case ok2 then show ?thesis by (intro exI [of _ 2]) (simp add: MAX_RETRIES_def)
next
  case stop2 then show ?thesis by (intro exI [of _ 2]) (simp add: MAX_RETRIES_def)
next
  case ok3 then show ?thesis by (intro exI [of _ 3]) (simp add: MAX_RETRIES_def)
next
  case stop3 then show ?thesis by (intro exI [of _ 3]) (simp add: MAX_RETRIES_def)
next
  case exhausted3 then show ?thesis by (intro exI [of _ 3]) (simp add: MAX_RETRIES_def)
qed

lemma withRetry_success_is_a_reply:
  assumes "withRetry b fn n = (Inr v, n')"
  shows "\<exists>r. fn r = (Inr v, remote n')"
  using assms by (cases rule: withRetry_cases [of fn n b]) auto

lemma withRetry_failure_cause:
  assumes "withRetry b fn n = (Inl e, n')"
  shows "\<exists>r cause. fn r = (Inl cause, remote n')
           \<and> ((\<not> isRetryable cause \<and> e = cause)
                \<or> (isRetryable cause \<and> e = exhausted (Some cause)))"
  using assms by (cases rule: withRetry_cases [of fn n b]) (auto, blast+)

lemma attempts_of_backoff_trace:
  "length (filter (\<lambda>ev. case ev of Attempt a \<Rightarrow> True | Sleep d \<Rightarrow> False) (backoff_trace b k)) = k"
  by (induction b k rule: backoff_trace.induct) (simp_all add: wait_after_def)

lemma isRetryable_iff:
  "isRetryable err \<longleftrightarrow>
     (code err = Some ''ECONNABORTED'' \<or> code err = Some ''ETIMEDOUT''
      \<or> status err = Some 429 \<or> status err = Some 500 \<or> status err = Some 502
      \<or> status err = Some 503 \<or> status err = Some 504)"
  by (cases "code err"; cases "status err")
     (simp_all add: isRetryable_def RETRYABLE_ERROR_CODES_def RETRYABLE_STATUS_CODES_def)

lemma backoff_trace_3_positive:
  "0 < b \<Longrightarrow> backoff_trace b 3 = [Attempt 1, Sleep (b * 2 ^ (1 - 1)), Attempt 2, Sleep (b * 2 ^ (2 - 1)), Attempt 3]"
  by (simp add: backoff_trace_3 wait_after_def)

lemma withRetry_trace_3:
  "\<exists>k. 1 \<le> k \<and> k \<le> 3 \<and> wire (snd (withRetry b fn n)) = wire n @ backoff_trace b k"
  using withRetry_trace [of b fn n] by (simp add: MAX_RETRIES_def)

text \<open>
  The claim C6 as the specification words it counts every status of the 5xx class as
  retryable. The client does not retry on 501.
\<close>

theorem status_501_counterexample:
  "retryable_by_spec (status_error 501) \<and> \<not> isRetryable (status_error 501)"
  by (simp add: retryable_by_spec_def isRetryable_iff status_error_def)

text \<open>
  Claim C6, amended. A thrown value is retryable exactly when its code is
  \<^verbatim>\<open>ECONNABORTED\<close> or \<^verbatim>\<open>ETIMEDOUT\<close> or its response status is one of 429, 500, 502, 503
  and 504; any other status, 501 and 400 among them, is not. When the first call fails with a
  value that is not retryable, the wrapper throws that same value after this one attempt and
  without any wait.
\<close>

theorem retryable_listed_codes_only_and_no_retry_otherwise:
  "(isRetryable err \<longleftrightarrow>
     (code err = Some ''ECONNABORTED'' \<or> code err = Some ''ETIMEDOUT''
      \<or> status err = Some 429 \<or> status err = Some 500 \<or> status err = Some 502
      \<or> status err = Some 503 \<or> status err = Some 504))
   \<and> (fn (remote n) = (Inl e, r') \<and> \<not> isRetryable e
       \<longrightarrow> withRetry b fn n = (Inl e, \<lparr>remote = r', wire = wire n @ [Attempt 1]\<rparr>))"
proof -
  have "fn (remote n) = (Inl e, r') \<and> \<not> isRetryable e
       \<longrightarrow> withRetry b fn n = (Inl e, \<lparr>remote = r', wire = wire n @ [Attempt 1]\<rparr>)"
    by (simp add: withRetry_unfold)
  then show ?thesis
    by (intro conjI isRetryable_iff)
qed

theorem retryable_listed_codes_only_and_no_retry_otherwise_witness:
  "\<not> isRetryable (status_error 400)
   \<and> createLead mockedAxios 1000 mockLead
       \<lparr>remote = \<lparr>get_replies = [], post_replies = [Inl (status_error 400)]\<rparr>, wire = []\<rparr>
     = (Inl (status_error 400),
        \<lparr>remote = \<lparr>get_replies = [], post_replies = []\<rparr>, wire = [Attempt 1]\<rparr>)"
proof -
  let ?fn = "post_request mockedAxios ''/api/leads/create'' mockLead"
  have r: "\<not> isRetryable (status_error 400)"
    by code_simp
  have c: "?fn \<lparr>get_replies = [], post_replies = [Inl (status_error 400)]\<rparr>
             = (Inl (status_error 400), \<lparr>get_replies = [], post_replies = []\<rparr>)"
    by code_simp
  show ?thesis
    using retryable_listed_codes_only_and_no_retry_otherwise
      [where err = "status_error 400" and fn = ?fn
         and n = "\<lparr>remote = \<lparr>get_replies = [], post_replies = [Inl (status_error 400)]\<rparr>, wire = []\<rparr>"
         and e = "status_error 400" and r' = "\<lparr>get_replies = [], post_replies = []\<rparr>" and b = 1000]
      r c
    by (simp add: createLead_def)
qed


section \<open>Replies of the remote\<close>

lemma is_object_truthy: "is_object j \<Longrightarrow> truthy j"
  by (cases j) (simp_all add: is_object_def truthy_def)

lemma get_prop_Some_is_object: "get_prop k j = Some v \<Longrightarrow> is_object j"
  by (cases j) (simp_all add: get_prop_def is_object_def)

lemma get_prop_lead_object [simp]:
  "get_prop ''name'' (lead_object n e c s) = Some (JStr n)"
  "get_prop ''email'' (lead_object n e c s) = Some (JStr e)"
  "get_prop ''company'' (lead_object n e c s) = Some (JStr c)"
  "get_prop ''source'' (lead_object n e c s) = Some (JStr s)"
  by (simp_all add: get_prop_def lead_object_def)

lemma lead_object_facts [simp]:
  "is_object (lead_object n e c s)" "truthy (lead_object n e c s)"
  "lead_object n e c s \<noteq> JNull"
  by (simp_all add: lead_object_def is_object_def truthy_def)

lemma not_retryable_new_Error [simp]: "\<not> isRetryable (new_Error msg)"
  by (simp add: isRetryable_def new_Error_def)

lemma not_retryable_new_TypeError [simp]: "\<not> isRetryable (new_TypeError msg)"
  by (simp add: isRetryable_def new_TypeError_def)

lemma not_retryable_malformed [simp]: "\<not> isRetryable malformed"
  by (simp add: malformed_def)

lemma new_Error_fields [simp]:
  "isAxiosError (new_Error msg) = False" "status (new_Error msg) = None"
  "error_message (new_Error msg) = msg" "instanceofError (new_Error msg)"
  "isAxiosError (new_TypeError msg) = False" "status (new_TypeError msg) = None"
  "error_message (new_TypeError msg) = msg" "instanceofError (new_TypeError msg)"
  by (simp_all add: new_Error_def new_TypeError_def error_message_def)

lemma malformed_fields [simp]:
  "isAxiosError malformed = False" "status malformed = None"
  "error_message malformed = ''Malformed API response: missing expected fields (name, email)''"
  by (simp_all add: malformed_def)

lemma first_thrown_Inl: "first_thrown rs = Inl e \<Longrightarrow> Inl e \<in> set rs"
  by (induction rs rule: first_thrown.induct) (auto split: sum.splits)

lemma String_js_Inl:
  "String_js j = Inl e \<Longrightarrow> e = new_TypeError ''Cannot convert object to primitive value''"
proof (induction j arbitrary: e rule: String_js.induct)
  case (1 xs)
  from "1.prems" have "first_thrown (map (\<lambda>x. if x = JNull then Inr [] else String_js x) xs) = Inl e"
    by (simp split: sum.splits)
  then have "Inl e \<in> set (map (\<lambda>x. if x = JNull then Inr [] else String_js x) xs)"
    by (rule first_thrown_Inl)
  then obtain x where "x \<in> set xs" "x \<noteq> JNull" "String_js x = Inl e"
    by (auto split: if_splits)
  then show ?case
    by (rule "1.IH")
qed (simp_all split: if_splits)

lemma String_prop_Inl:
  "String_prop v = Inl e \<Longrightarrow> e = new_TypeError ''Cannot convert object to primitive value''"
  by (auto simp: String_prop_def split: option.splits dest: String_js_Inl)

lemma String_or_empty_Some:
  "String_or_empty (Some x) = (if x = JNull then Inr [] else String_js x)"
  by (cases x) (simp_all add: String_or_empty_def)

lemma String_or_empty_Inl:
  assumes "String_or_empty v = Inl e"
  shows "e = new_TypeError ''Cannot convert object to primitive value''"
proof (cases v)
  case None
  with assms show ?thesis
    by (simp add: String_or_empty_def)
next
  case (Some x)
  with assms show ?thesis
    by (auto simp: String_or_empty_Some split: if_splits dest: String_js_Inl)
qed

lemma lead_literal_Inl:
  "lead_literal d = Inl e \<Longrightarrow> e = new_TypeError ''Cannot convert object to primitive value''"
  by (auto simp: lead_literal_def split: sum.splits dest: String_prop_Inl String_or_empty_Inl)

lemma lead_literal_Inr:
  "lead_literal d = Inr v \<Longrightarrow> \<exists>n e c s. v = lead_object n e c s"
  by (auto simp: lead_literal_def split: sum.splits)

lemma extractLeadFromResponse_eq:
  "extractLeadFromResponse data =
     (if exposes_name_and_email data then lead_literal (unwrapped data) else Inl malformed)"
  by (auto simp: extractLeadFromResponse_def exposes_name_and_email_def unwrapped_def Let_def
           is_object_truthy split: option.splits)

lemma validateLeadResponse_eq:
  "validateLeadResponse data =
     (if \<not> exposes_name_and_email data then Inl malformed
      else if unwrapped data = data \<and> (\<forall>l. get_prop ''lead'' data = Some l \<longrightarrow> \<not> is_object l)
      then Inr data
      else lead_literal (unwrapped data))"
  by (auto simp: validateLeadResponse_def extractLeadFromResponse_eq exposes_name_and_email_def
           unwrapped_def is_object_truthy split: option.splits)

lemma validateLeadResponse_malformed:
  "\<not> exposes_name_and_email data \<Longrightarrow> validateLeadResponse data = Inl malformed"
  by (simp add: validateLeadResponse_eq)

lemma validateLeadResponse_Inr:
  assumes "validateLeadResponse data = Inr v"
  shows "is_object v \<and> truthy v \<and> get_prop ''name'' v \<noteq> None \<and> get_prop ''email'' v \<noteq> None"
  using assms
  by (auto simp: validateLeadResponse_eq exposes_name_and_email_def is_object_truthy
           split: if_splits dest!: lead_literal_Inr)

lemma validateLeadResponse_Inl:
  "validateLeadResponse data = Inl e \<Longrightarrow>
     e = malformed \<or> e = new_TypeError ''Cannot convert object to primitive value''"
  by (auto simp: validateLeadResponse_eq split: if_splits dest: lead_literal_Inl)

lemma validateLeadResponse_Inl_plain:
  "validateLeadResponse data = Inl e \<Longrightarrow> \<not> isAxiosError e \<and> status e = None \<and> \<not> isRetryable e"
  by (auto dest!: validateLeadResponse_Inl)

lemma lookupLead_request_reply:
  assumes "axios_get ax ''/api/leads/lookup'' em r = (Inr data, r')"
  shows "lookupLead_request ax em r =
     (if \<not> is_object data
      then Inl (new_TypeError (''Cannot use 'in' operator to search for 'found' in ''
                               @ text_of_primitive data))
      else if get_prop ''found'' data = Some (JBool False) then Inr JNull
      else validateLeadResponse data, r')"
  using assms
  by (auto simp: lookupLead_request_def Let_def dest: validateLeadResponse_Inl_plain
           split: sum.splits)

lemma lookupLead_request_rejection:
  assumes "axios_get ax ''/api/leads/lookup'' em r = (Inl err, r')"
  shows "lookupLead_request ax em r =
     (if isAxiosError err \<and> status err = Some 404 then Inr JNull else Inl err, r')"
  using assms by (simp add: lookupLead_request_def)

lemma lookupLead_request_not_found_only:
  assumes "lookupLead_request ax em r = (Inr JNull, r')"
  shows "(\<exists>data. axios_get ax ''/api/leads/lookup'' em r = (Inr data, r')
                  \<and> get_prop ''found'' data = Some (JBool False))
         \<or> (\<exists>err. axios_get ax ''/api/leads/lookup'' em r = (Inl err, r')
                  \<and> isAxiosError err \<and> status err = Some 404)"
proof -
  obtain reply r1 where g: "axios_get ax ''/api/leads/lookup'' em r = (reply, r1)"
    by (cases "axios_get ax ''/api/leads/lookup'' em r")
  show ?thesis
  proof (cases reply)
    case (Inl err)
    with g assms show ?thesis
      by (auto simp: lookupLead_request_rejection split: if_splits)
  next
    case (Inr data)
    with g assms show ?thesis
      by (auto simp: lookupLead_request_reply is_object_def split: if_splits
               dest!: validateLeadResponse_Inr)
  qed
qed

lemma lookupLead_request_Inr:
  assumes "lookupLead_request ax em r = (Inr v, r')"
  shows "v = JNull \<or> (is_object v \<and> truthy v \<and> get_prop ''name'' v \<noteq> None \<and> get_prop ''email'' v \<noteq> None)"
proof -
  obtain reply r1 where g: "axios_get ax ''/api/leads/lookup'' em r = (reply, r1)"
    by (cases "axios_get ax ''/api/leads/lookup'' em r")
  show ?thesis
  proof (cases reply)
    case (Inl err)
    with g assms show ?thesis
      by (auto simp: lookupLead_request_rejection split: if_splits)
  next
    case (Inr data)
    with g assms show ?thesis
      by (auto simp: lookupLead_request_reply split: if_splits dest!: validateLeadResponse_Inr)
  qed
qed

lemma withRetry_first_success:
  "fn (remote n) = (Inr v, r') \<Longrightarrow> withRetry b fn n = (Inr v, \<lparr>remote = r', wire = wire n @ [Attempt 1]\<rparr>)"
  by (simp add: withRetry_unfold)

lemma withRetry_first_not_retryable:
  "fn (remote n) = (Inl e, r') \<Longrightarrow> \<not> isRetryable e \<Longrightarrow>
     withRetry b fn n = (Inl e, \<lparr>remote = r', wire = wire n @ [Attempt 1]\<rparr>)"
  by (simp add: withRetry_unfold)

text \<open>
  Claim C8. \<^verbatim>\<open>lookupLead\<close> has one "not found" outcome, the value \<^verbatim>\<open>null\<close>, and reaches
  it from both negative signals after a single attempt: a reply whose \<^verbatim>\<open>found\<close> is
  \<^verbatim>\<open>false\<close>, and a rejection that is an axios error with status 404. A value it returns is
  either that \<^verbatim>\<open>null\<close> or a found record, an object with a name and an email: there is no
  third kind of result. And \<^verbatim>\<open>null\<close> comes from those two signals only: whenever it is
  returned, the request that ended the call was answered by one of them, so every other
  failure is thrown.
\<close>

theorem lookup_not_found_is_one_outcome:
  "(axios_get ax ''/api/leads/lookup'' em (remote n) = (Inr data, r')
      \<and> get_prop ''found'' data = Some (JBool False)
     \<longrightarrow> lookupLead ax b em n = (Inr JNull, \<lparr>remote = r', wire = wire n @ [Attempt 1]\<rparr>))
   \<and> (axios_get ax ''/api/leads/lookup'' em (remote n) = (Inl err, r')
      \<and> isAxiosError err \<and> status err = Some 404
     \<longrightarrow> lookupLead ax b em n = (Inr JNull, \<lparr>remote = r', wire = wire n @ [Attempt 1]\<rparr>))
   \<and> (lookupLead ax b em n = (Inr v, n')
     \<longrightarrow> v = JNull
         \<or> (is_object v \<and> truthy v \<and> get_prop ''name'' v \<noteq> None \<and> get_prop ''email'' v \<noteq> None))
   \<and> (lookupLead ax b em n = (Inr JNull, n')
     \<longrightarrow> (\<exists>r. (\<exists>reply. axios_get ax ''/api/leads/lookup'' em r = (Inr reply, remote n')
                        \<and> get_prop ''found'' reply = Some (JBool False))
              \<or> (\<exists>rejection. axios_get ax ''/api/leads/lookup'' em r = (Inl rejection, remote n')
                        \<and> isAxiosError rejection \<and> status rejection = Some 404)))"
proof -
  have a: "axios_get ax ''/api/leads/lookup'' em (remote n) = (Inr data, r')
      \<and> get_prop ''found'' data = Some (JBool False)
     \<longrightarrow> lookupLead ax b em n = (Inr JNull, \<lparr>remote = r', wire = wire n @ [Attempt 1]\<rparr>)"
  proof
    assume h: "axios_get ax ''/api/leads/lookup'' em (remote n) = (Inr data, r')
      \<and> get_prop ''found'' data = Some (JBool False)"
    then have "is_object data"
      using get_prop_Some_is_object by blast
    with h have "lookupLead_request ax em (remote n) = (Inr JNull, r')"
      by (simp add: lookupLead_request_reply)
    then show "lookupLead ax b em n = (Inr JNull, \<lparr>remote = r', wire = wire n @ [Attempt 1]\<rparr>)"
      unfolding lookupLead_def by (rule withRetry_first_success)
  qed
  have c: "axios_get ax ''/api/leads/lookup'' em (remote n) = (Inl err, r')
      \<and> isAxiosError err \<and> status err = Some 404
     \<longrightarrow> lookupLead ax b em n = (Inr JNull, \<lparr>remote = r', wire = wire n @ [Attempt 1]\<rparr>)"
  proof
    assume h: "axios_get ax ''/api/leads/lookup'' em (remote n) = (Inl err, r')
      \<and> isAxiosError err \<and> status err = Some 404"
    then have "lookupLead_request ax em (remote n) = (Inr JNull, r')"
      by (simp add: lookupLead_request_rejection)
    then show "lookupLead ax b em n = (Inr JNull, \<lparr>remote = r', wire = wire n @ [Attempt 1]\<rparr>)"
      unfolding lookupLead_def by (rule withRetry_first_success)
  qed
  have d: "lookupLead ax b em n = (Inr v, n')
     \<longrightarrow> v = JNull
         \<or> (is_object v \<and> truthy v \<and> get_prop ''name'' v \<noteq> None \<and> get_prop ''email'' v \<noteq> None)"
  proof
    assume "lookupLead ax b em n = (Inr v, n')"
    then have "\<exists>r. lookupLead_request ax em r = (Inr v, remote n')"
      unfolding lookupLead_def by (rule withRetry_success_is_a_reply)
    then obtain r where "lookupLead_request ax em r = (Inr v, remote n')" ..
    then show "v = JNull
         \<or> (is_object v \<and> truthy v \<and> get_prop ''name'' v \<noteq> None \<and> get_prop ''email'' v \<noteq> None)"
      by (rule lookupLead_request_Inr)
  qed
  have e: "lookupLead ax b em n = (Inr JNull, n')
     \<longrightarrow> (\<exists>r. (\<exists>reply. axios_get ax ''/api/leads/lookup'' em r = (Inr reply, remote n')
                        \<and> get_prop ''found'' reply = Some (JBool False))
              \<or> (\<exists>rejection. axios_get ax ''/api/leads/lookup'' em r = (Inl rejection, remote n')
                        \<and> isAxiosError rejection \<and> status rejection = Some 404))"
  proof
    assume "lookupLead ax b em n = (Inr JNull, n')"
    then have "\<exists>r. lookupLead_request ax em r = (Inr JNull, remote n')"
      unfolding lookupLead_def by (rule withRetry_success_is_a_reply)
    then obtain r where "lookupLead_request ax em r = (Inr JNull, remote n')" ..
    from lookupLead_request_not_found_only [OF this]
    show "\<exists>r. (\<exists>reply. axios_get ax ''/api/leads/lookup'' em r = (Inr reply, remote n')
                        \<and> get_prop ''found'' reply = Some (JBool False))
              \<or> (\<exists>rejection. axios_get ax ''/api/leads/lookup'' em r = (Inl rejection, remote n')
                        \<and> isAxiosError rejection \<and> status rejection = Some 404)"
      by (intro exI [of _ r])
  qed
  show ?thesis
    by (intro conjI a c d e)
qed

theorem lookup_not_found_is_one_outcome_witness:
  "lookupLead mockedAxios 1000 ''nobody@example.com''
     \<lparr>remote = \<lparr>get_replies = [Inr not_found_flag], post_replies = []\<rparr>, wire = []\<rparr>
   = (Inr JNull, \<lparr>remote = \<lparr>get_replies = [], post_replies = []\<rparr>, wire = [Attempt 1]\<rparr>)
   \<and> lookupLead mockedAxios 1000 ''nobody@example.com''
     \<lparr>remote = \<lparr>get_replies = [Inl (status_error 404)], post_replies = []\<rparr>, wire = []\<rparr>
   = (Inr JNull, \<lparr>remote = \<lparr>get_replies = [], post_replies = []\<rparr>, wire = [Attempt 1]\<rparr>)"
proof -
  have g1: "axios_get mockedAxios ''/api/leads/lookup'' ''nobody@example.com''
              \<lparr>get_replies = [Inr not_found_flag], post_replies = []\<rparr>
            = (Inr not_found_flag, \<lparr>get_replies = [], post_replies = []\<rparr>)"
    by code_simp
  have f1: "get_prop ''found'' not_found_flag = Some (JBool False)"
    by code_simp
  have g2: "axios_get mockedAxios ''/api/leads/lookup'' ''nobody@example.com''
              \<lparr>get_replies = [Inl (status_error 404)], post_replies = []\<rparr>
            = (Inl (status_error 404), \<lparr>get_replies = [], post_replies = []\<rparr>)"
    by code_simp
  have f2: "isAxiosError (status_error 404) \<and> status (status_error 404) = Some 404"
    by code_simp
  show ?thesis
    using
      lookup_not_found_is_one_outcome
        [where ax = mockedAxios and em = "''nobody@example.com''" and b = 1000
           and n = "\<lparr>remote = \<lparr>get_replies = [Inr not_found_flag], post_replies = []\<rparr>, wire = []\<rparr>"
           and data = not_found_flag and r' = "\<lparr>get_replies = [], post_replies = []\<rparr>"
           and err = "status_error 404" and v = JNull
           and n' = "\<lparr>remote = \<lparr>get_replies = [], post_replies = []\<rparr>, wire = [Attempt 1]\<rparr>"]
      lookup_not_found_is_one_outcome
        [where ax = mockedAxios and em = "''nobody@example.com''" and b = 1000
           and n = "\<lparr>remote = \<lparr>get_replies = [Inl (status_error 404)], post_replies = []\<rparr>, wire = []\<rparr>"
           and data = not_found_flag and r' = "\<lparr>get_replies = [], post_replies = []\<rparr>"
           and err = "status_error 404" and v = JNull
           and n' = "\<lparr>remote = \<lparr>get_replies = [], post_replies = []\<rparr>, wire = [Attempt 1]\<rparr>"]
      g1 f1 g2 f2
    by simp
qed


section \<open>The three operations under the wrapper\<close>

lemma withRetry_exhausted:
  assumes "fn (remote n) = (Inl e1, r1)" "isRetryable e1" "fn r1 = (Inl e2, r2)" "isRetryable e2"
    and "fn r2 = (Inl e3, r3)" "isRetryable e3"
  shows "withRetry b fn n
           = (Inl (new_Error (''Max retries exhausted after 3 attempts. Last error: ''
                              @ error_message e3)),
              \<lparr>remote = r3, wire = wire n @ backoff_trace b 3\<rparr>)"
  using assms by (cases rule: withRetry_cases [of fn n b]) (auto simp: exhausted_Some)

lemma post_request_rejection:
  "axios_post ax path l r = (Inl e, r') \<Longrightarrow> post_request ax path l r = (Inl e, r')"
  by (simp add: post_request_def)

lemma post_request_Inr:
  assumes "post_request ax path l r = (Inr v, r')"
  shows "\<exists>data. axios_post ax path l r = (Inr data, r') \<and> validateLeadResponse data = Inr v"
  using assms by (auto simp: post_request_def split: prod.splits sum.splits)

lemma post_request_Inl:
  assumes "post_request ax path l r = (Inl e, r')"
  shows "axios_post ax path l r = (Inl e, r')
         \<or> (\<exists>data. axios_post ax path l r = (Inr data, r') \<and> validateLeadResponse data = Inl e)"
  using assms by (auto simp: post_request_def split: prod.splits sum.splits)

lemma lookupLead_request_Inr_origin:
  assumes "lookupLead_request ax em r = (Inr v, r')"
  shows "(\<exists>data. axios_get ax ''/api/leads/lookup'' em r = (Inr data, r')
            \<and> (get_prop ''found'' data = Some (JBool False) \<and> v = JNull
                 \<or> validateLeadResponse data = Inr v))
         \<or> (\<exists>rejection. axios_get ax ''/api/leads/lookup'' em r = (Inl rejection, r')
                \<and> isAxiosError rejection \<and> status rejection = Some 404 \<and> v = JNull)"
proof -
  obtain reply r1 where g: "axios_get ax ''/api/leads/lookup'' em r = (reply, r1)"
    by (cases "axios_get ax ''/api/leads/lookup'' em r")
  show ?thesis
  proof (cases reply)
    case (Inl err)
    with g assms show ?thesis
      by (auto simp: lookupLead_request_rejection split: if_splits)
  next
    case (Inr data)
    with g assms show ?thesis
      by (auto simp: lookupLead_request_reply split: if_splits)
  qed
qed

lemma lookupLead_request_Inl_origin:
  assumes "lookupLead_request ax em r = (Inl e, r')"
  shows "(axios_get ax ''/api/leads/lookup'' em r = (Inl e, r')
            \<and> \<not> (isAxiosError e \<and> status e = Some 404))
         \<or> (\<exists>data. axios_get ax ''/api/leads/lookup'' em r = (Inr data, r')
                \<and> (\<not> is_object data
                       \<and> e = new_TypeError (''Cannot use 'in' operator to search for 'found' in ''
                                             @ text_of_primitive data)
                     \<or> validateLeadResponse data = Inl e))"
proof -
  obtain reply r1 where g: "axios_get ax ''/api/leads/lookup'' em r = (reply, r1)"
    by (cases "axios_get ax ''/api/leads/lookup'' em r")
  show ?thesis
  proof (cases reply)
    case (Inl err)
    with g assms show ?thesis
      by (auto simp: lookupLead_request_rejection split: if_splits)
  next
    case (Inr data)
    with g assms show ?thesis
      by (auto simp: lookupLead_request_reply split: if_splits)
  qed
qed

lemma lookupLead_exhausted:
  assumes "axios_get ax ''/api/leads/lookup'' em (remote m) = (Inl e1, r1)"
      "isRetryable e1" "\<not> (isAxiosError e1 \<and> status e1 = Some 404)"
    and "axios_get ax ''/api/leads/lookup'' em r1 = (Inl e2, r2)"
      "isRetryable e2" "\<not> (isAxiosError e2 \<and> status e2 = Some 404)"
    and "axios_get ax ''/api/leads/lookup'' em r2 = (Inl e3, r3)"
      "isRetryable e3" "\<not> (isAxiosError e3 \<and> status e3 = Some 404)"
  shows "lookupLead ax b em m
           = (Inl (new_Error (''Max retries exhausted after 3 attempts. Last error: ''
                              @ error_message e3)),
              \<lparr>remote = r3, wire = wire m @ backoff_trace b 3\<rparr>)"
proof -
  have "lookupLead_request ax em (remote m) = (Inl e1, r1)"
    using assms(1,3) by (simp add: lookupLead_request_rejection)
  moreover have "lookupLead_request ax em r1 = (Inl e2, r2)"
    using assms(4,6) by (simp add: lookupLead_request_rejection)
  moreover have "lookupLead_request ax em r2 = (Inl e3, r3)"
    using assms(7,9) by (simp add: lookupLead_request_rejection)
  ultimately show ?thesis
    unfolding lookupLead_def using assms(2,5,8)
    by (intro withRetry_exhausted [where ?e1.0 = e1 and ?r1.0 = r1 and ?e2.0 = e2 and ?r2.0 = r2])
qed

lemma post_exhausted:
  assumes "axios_post ax path l (remote m) = (Inl e1, r1)" "isRetryable e1"
    and "axios_post ax path l r1 = (Inl e2, r2)" "isRetryable e2"
    and "axios_post ax path l r2 = (Inl e3, r3)" "isRetryable e3"
  shows "withRetry b (post_request ax path l) m
           = (Inl (new_Error (''Max retries exhausted after 3 attempts. Last error: ''
                              @ error_message e3)),
              \<lparr>remote = r3, wire = wire m @ backoff_trace b 3\<rparr>)"
  using assms
  by (intro withRetry_exhausted [where ?e1.0 = e1 and ?r1.0 = r1 and ?e2.0 = e2 and ?r2.0 = r2]
            post_request_rejection)

lemma post_returned:
  assumes "withRetry b (post_request ax path l) m = (Inr v, m')"
  shows "\<exists>r data. axios_post ax path l r = (Inr data, remote m') \<and> validateLeadResponse data = Inr v"
proof -
  from assms have "\<exists>r. post_request ax path l r = (Inr v, remote m')"
    by (rule withRetry_success_is_a_reply)
  then obtain r where "post_request ax path l r = (Inr v, remote m')" ..
  from post_request_Inr [OF this] show ?thesis
    by (intro exI [of _ r])
qed

lemma post_thrown:
  assumes "withRetry b (post_request ax path l) m = (Inl e, m')"
  shows "\<exists>r cause.
           (axios_post ax path l r = (Inl cause, remote m')
            \<or> (\<exists>data. axios_post ax path l r = (Inr data, remote m')
                   \<and> validateLeadResponse data = Inl cause))
           \<and> ((\<not> isRetryable cause \<and> e = cause)
                \<or> (isRetryable cause
                    \<and> e = new_Error (''Max retries exhausted after 3 attempts. Last error: ''
                                     @ error_message cause)))"
proof -
  from withRetry_failure_cause [OF assms]
  obtain r cause where c: "post_request ax path l r = (Inl cause, remote m')"
    and k: "(\<not> isRetryable cause \<and> e = cause) \<or> (isRetryable cause \<and> e = exhausted (Some cause))"
    by auto
  from post_request_Inl [OF c] k show ?thesis
    unfolding exhausted_Some by (intro exI [of _ r] exI [of _ cause] conjI)
qed

lemma lookup_returned:
  assumes "lookupLead ax b em m = (Inr v, m')"
  shows "\<exists>r. (\<exists>data. axios_get ax ''/api/leads/lookup'' em r = (Inr data, remote m')
                  \<and> (get_prop ''found'' data = Some (JBool False) \<and> v = JNull
                       \<or> validateLeadResponse data = Inr v))
             \<or> (\<exists>rejection. axios_get ax ''/api/leads/lookup'' em r = (Inl rejection, remote m')
                    \<and> isAxiosError rejection \<and> status rejection = Some 404 \<and> v = JNull)"
proof -
  from assms have "\<exists>r. lookupLead_request ax em r = (Inr v, remote m')"
    unfolding lookupLead_def by (rule withRetry_success_is_a_reply)
  then obtain r where "lookupLead_request ax em r = (Inr v, remote m')" ..
  from lookupLead_request_Inr_origin [OF this] show ?thesis
    by (intro exI [of _ r])
qed

lemma lookup_thrown:
  assumes "lookupLead ax b em m = (Inl e, m')"
  shows "\<exists>r cause.
           ((axios_get ax ''/api/leads/lookup'' em r = (Inl cause, remote m')
               \<and> \<not> (isAxiosError cause \<and> status cause = Some 404))
            \<or> (\<exists>data. axios_get ax ''/api/leads/lookup'' em r = (Inr data, remote m')
                   \<and> (\<not> is_object data
                          \<and> cause = new_TypeError (''Cannot use 'in' operator to search for 'found' in ''
                                                    @ text_of_primitive data)
                        \<or> validateLeadResponse data = Inl cause)))
           \<and> ((\<not> isRetryable cause \<and> e = cause)
                \<or> (isRetryable cause
                    \<and> e = new_Error (''Max retries exhausted after 3 attempts. Last error: ''
                                     @ error_message cause)))"
proof -
  from assms have "withRetry b (lookupLead_request ax em) m = (Inl e, m')"
    by (simp add: lookupLead_def)
  from withRetry_failure_cause [OF this]
  obtain r cause where c: "lookupLead_request ax em r = (Inl cause, remote m')"
    and k: "(\<not> isRetryable cause \<and> e = cause) \<or> (isRetryable cause \<and> e = exhausted (Some cause))"
    by auto
  from lookupLead_request_Inl_origin [OF c] k show ?thesis
    unfolding exhausted_Some by (intro exI [of _ r] exI [of _ cause] conjI)
qed

text \<open>
  Claim C5. The wrapper calls the wrapped function at most three times, and so does each of
  the three remote operations, which are the wrapper applied to one request: what the client
  adds to its log is \<open>backoff_trace b k\<close> for some \<open>k\<close> from 1 to 3, that is \<open>k\<close> attempts
  and, after each failed attempt \<open>a\<close> but the last, a wait of \<open>b * 2 ^ (a - 1)\<close>
  milliseconds (with a positive base \<open>b\<close>: \<open>b\<close> after the first attempt, \<open>2 * b\<close> after the
  second). When three attempts in a row fail with retryable errors, the wrapper throws an
  \<^verbatim>\<open>Error\<close> whose message names the count 3 and the message of the last error; so does a
  lookup whose three GET requests are rejected with retryable errors (none of them the 404
  that means "not found"), and a create or an update whose three POST requests are. No
  failure is swallowed. The wrapper returns a value only if a call returned it, and what it
  throws is either a non-retryable error of a call, unchanged, or that aggregate of a
  retryable one. A create or an update returns a value only when a POST request was answered
  and the answer validated to that value, and what it throws goes back to a rejected POST
  request or to an answer that failed validation. A lookup returns a value only when a GET
  request was answered, with the not-found flag or with an answer that validated to the value,
  or was rejected with status 404; what it throws goes back to another rejection or to an
  answer that failed the test for \<^verbatim>\<open>found\<close> or the validation.
\<close>

theorem withRetry_three_attempts_backoff_aggregate:
  "(\<exists>k. 1 \<le> k \<and> k \<le> 3 \<and> wire (snd (withRetry b fn n)) = wire n @ backoff_trace b k)
   \<and> (\<exists>k. 1 \<le> k \<and> k \<le> 3 \<and> wire (snd (lookupLead ax b em m)) = wire m @ backoff_trace b k)
   \<and> (\<exists>k. 1 \<le> k \<and> k \<le> 3 \<and> wire (snd (createLead ax b l m)) = wire m @ backoff_trace b k)
   \<and> (\<exists>k. 1 \<le> k \<and> k \<le> 3 \<and> wire (snd (updateLead ax b l m)) = wire m @ backoff_trace b k)
   \<and> length (filter (\<lambda>ev. case ev of Attempt a \<Rightarrow> True | Sleep d \<Rightarrow> False) (backoff_trace b j)) = j
   \<and> (0 < b \<longrightarrow> backoff_trace b 3
         = [Attempt 1, Sleep (b * 2 ^ (1 - 1)), Attempt 2, Sleep (b * 2 ^ (2 - 1)), Attempt 3])
   \<and> (fn (remote n) = (Inl e1, r1) \<and> isRetryable e1 \<and> fn r1 = (Inl e2, r2) \<and> isRetryable e2
        \<and> fn r2 = (Inl e3, r3) \<and> isRetryable e3
       \<longrightarrow> withRetry b fn n
            = (Inl (new_Error (''Max retries exhausted after 3 attempts. Last error: ''
                               @ error_message e3)),
               \<lparr>remote = r3, wire = wire n @ backoff_trace b 3\<rparr>))
   \<and> (\<forall>v n'. withRetry b fn n = (Inr v, n') \<longrightarrow> (\<exists>r. fn r = (Inr v, remote n')))
   \<and> (\<forall>e n'. withRetry b fn n = (Inl e, n') \<longrightarrow>
         (\<exists>r cause. fn r = (Inl cause, remote n')
            \<and> ((\<not> isRetryable cause \<and> e = cause)
                 \<or> (isRetryable cause
                     \<and> e = new_Error (''Max retries exhausted after 3 attempts. Last error: ''
                                      @ error_message cause)))))
   \<and> (axios_get ax ''/api/leads/lookup'' em (remote m) = (Inl e1, r1)
        \<and> isRetryable e1 \<and> \<not> (isAxiosError e1 \<and> status e1 = Some 404)
        \<and> axios_get ax ''/api/leads/lookup'' em r1 = (Inl e2, r2)
        \<and> isRetryable e2 \<and> \<not> (isAxiosError e2 \<and> status e2 = Some 404)
        \<and> axios_get ax ''/api/leads/lookup'' em r2 = (Inl e3, r3)
        \<and> isRetryable e3 \<and> \<not> (isAxiosError e3 \<and> status e3 = Some 404)
       \<longrightarrow> lookupLead ax b em m
            = (Inl (new_Error (''Max retries exhausted after 3 attempts. Last error: ''
                               @ error_message e3)),
               \<lparr>remote = r3, wire = wire m @ backoff_trace b 3\<rparr>))
   \<and> (axios_post ax ''/api/leads/create'' l (remote m) = (Inl e1, r1) \<and> isRetryable e1
        \<and> axios_post ax ''/api/leads/create'' l r1 = (Inl e2, r2) \<and> isRetryable e2
        \<and> axios_post ax ''/api/leads/create'' l r2 = (Inl e3, r3) \<and> isRetryable e3
       \<longrightarrow> createLead ax b l m
            = (Inl (new_Error (''Max retries exhausted after 3 attempts. Last error: ''
                               @ error_message e3)),
               \<lparr>remote = r3, wire = wire m @ backoff_trace b 3\<rparr>))
   \<and> (axios_post ax ''/api/leads/update'' l (remote m) = (Inl e1, r1) \<and> isRetryable e1
        \<and> axios_post ax ''/api/leads/update'' l r1 = (Inl e2, r2) \<and> isRetryable e2
        \<and> axios_post ax ''/api/leads/update'' l r2 = (Inl e3, r3) \<and> isRetryable e3
       \<longrightarrow> updateLead ax b l m
            = (Inl (new_Error (''Max retries exhausted after 3 attempts. Last error: ''
                               @ error_message e3)),
               \<lparr>remote = r3, wire = wire m @ backoff_trace b 3\<rparr>))
   \<and> (\<forall>v m'. lookupLead ax b em m = (Inr v, m') \<longrightarrow>
         (\<exists>r. (\<exists>data. axios_get ax ''/api/leads/lookup'' em r = (Inr data, remote m')
                  \<and> (get_prop ''found'' data = Some (JBool False) \<and> v = JNull
                       \<or> validateLeadResponse data = Inr v))
             \<or> (\<exists>rejection. axios_get ax ''/api/leads/lookup'' em r = (Inl rejection, remote m')
                    \<and> isAxiosError rejection \<and> status rejection = Some 404 \<and> v = JNull)))
   \<and> (\<forall>v m'. createLead ax b l m = (Inr v, m') \<longrightarrow>
         (\<exists>r data. axios_post ax ''/api/leads/create'' l r = (Inr data, remote m')
                    \<and> validateLeadResponse data = Inr v))
   \<and> (\<forall>v m'. updateLead ax b l m = (Inr v, m') \<longrightarrow>
         (\<exists>r data. axios_post ax ''/api/leads/update'' l r = (Inr data, remote m')
                    \<and> validateLeadResponse data = Inr v))
   \<and> (\<forall>e m'. lookupLead ax b em m = (Inl e, m') \<longrightarrow>
         (\<exists>r cause.
            ((axios_get ax ''/api/leads/lookup'' em r = (Inl cause, remote m')
                \<and> \<not> (isAxiosError cause \<and> status cause = Some 404))
             \<or> (\<exists>data. axios_get ax ''/api/leads/lookup'' em r = (Inr data, remote m')
                    \<and> (\<not> is_object data
                           \<and> cause = new_TypeError (''Cannot use 'in' operator to search for 'found' in ''
                                                     @ text_of_primitive data)
                         \<or> validateLeadResponse data = Inl cause)))
            \<and> ((\<not> isRetryable cause \<and> e = cause)
                 \<or> (isRetryable cause
                     \<and> e = new_Error (''Max retries exhausted after 3 attempts. Last error: ''
                                      @ error_message cause)))))
   \<and> (\<forall>e m'. createLead ax b l m = (Inl e, m') \<longrightarrow>
         (\<exists>r cause.
            (axios_post ax ''/api/leads/create'' l r = (Inl cause, remote m')
             \<or> (\<exists>data. axios_post ax ''/api/leads/create'' l r = (Inr data, remote m')
                    \<and> validateLeadResponse data = Inl cause))
            \<and> ((\<not> isRetryable cause \<and> e = cause)
                 \<or> (isRetryable cause
                     \<and> e = new_Error (''Max retries exhausted after 3 attempts. Last error: ''
                                      @ error_message cause)))))
   \<and> (\<forall>e m'. updateLead ax b l m = (Inl e, m') \<longrightarrow>
         (\<exists>r cause.
            (axios_post ax ''/api/leads/update'' l r = (Inl cause, remote m')
             \<or> (\<exists>data. axios_post ax ''/api/leads/update'' l r = (Inr data, remote m')
                    \<and> validateLeadResponse data = Inl cause))
            \<and> ((\<not> isRetryable cause \<and> e = cause)
                 \<or> (isRetryable cause
                     \<and> e = new_Error (''Max retries exhausted after 3 attempts. Last error: ''
                                      @ error_message cause)))))"
proof -
  have x: "fn (remote n) = (Inl e1, r1) \<and> isRetryable e1 \<and> fn r1 = (Inl e2, r2) \<and> isRetryable e2
        \<and> fn r2 = (Inl e3, r3) \<and> isRetryable e3
       \<longrightarrow> withRetry b fn n
            = (Inl (new_Error (''Max retries exhausted after 3 attempts. Last error: ''
                               @ error_message e3)),
               \<lparr>remote = r3, wire = wire n @ backoff_trace b 3\<rparr>)"
    by (cases rule: withRetry_cases [of fn n b]) (auto simp: exhausted_Some)
  have s: "\<forall>v n'. withRetry b fn n = (Inr v, n') \<longrightarrow> (\<exists>r. fn r = (Inr v, remote n'))"
    by (intro allI impI withRetry_success_is_a_reply [of b fn n])
  have f: "\<forall>e n'. withRetry b fn n = (Inl e, n') \<longrightarrow>
         (\<exists>r cause. fn r = (Inl cause, remote n')
            \<and> ((\<not> isRetryable cause \<and> e = cause)
                 \<or> (isRetryable cause
                     \<and> e = new_Error (''Max retries exhausted after 3 attempts. Last error: ''
                                      @ error_message cause))))"
    using withRetry_failure_cause [of b fn n] unfolding exhausted_Some by blast
  have t1: "\<exists>k. 1 \<le> k \<and> k \<le> 3 \<and> wire (snd (lookupLead ax b em m)) = wire m @ backoff_trace b k"
    unfolding lookupLead_def by (rule withRetry_trace_3)
  have t2: "\<exists>k. 1 \<le> k \<and> k \<le> 3 \<and> wire (snd (createLead ax b l m)) = wire m @ backoff_trace b k"
    unfolding createLead_def by (rule withRetry_trace_3)
  have t3: "\<exists>k. 1 \<le> k \<and> k \<le> 3 \<and> wire (snd (updateLead ax b l m)) = wire m @ backoff_trace b k"
    unfolding updateLead_def by (rule withRetry_trace_3)
  have xl: "axios_get ax ''/api/leads/lookup'' em (remote m) = (Inl e1, r1)
        \<and> isRetryable e1 \<and> \<not> (isAxiosError e1 \<and> status e1 = Some 404)
        \<and> axios_get ax ''/api/leads/lookup'' em r1 = (Inl e2, r2)
        \<and> isRetryable e2 \<and> \<not> (isAxiosError e2 \<and> status e2 = Some 404)
        \<and> axios_get ax ''/api/leads/lookup'' em r2 = (Inl e3, r3)
        \<and> isRetryable e3 \<and> \<not> (isAxiosError e3 \<and> status e3 = Some 404)
       \<longrightarrow> lookupLead ax b em m
            = (Inl (new_Error (''Max retries exhausted after 3 attempts. Last error: ''
                               @ error_message e3)),
               \<lparr>remote = r3, wire = wire m @ backoff_trace b 3\<rparr>)"
    using lookupLead_exhausted [of ax em m e1 r1 e2 r2 e3 r3 b] by simp
  have xc: "axios_post ax ''/api/leads/create'' l (remote m) = (Inl e1, r1) \<and> isRetryable e1
        \<and> axios_post ax ''/api/leads/create'' l r1 = (Inl e2, r2) \<and> isRetryable e2
        \<and> axios_post ax ''/api/leads/create'' l r2 = (Inl e3, r3) \<and> isRetryable e3
       \<longrightarrow> createLead ax b l m
            = (Inl (new_Error (''Max retries exhausted after 3 attempts. Last error: ''
                               @ error_message e3)),
               \<lparr>remote = r3, wire = wire m @ backoff_trace b 3\<rparr>)"
    unfolding createLead_def
    using post_exhausted [of ax "''/api/leads/create''" l m e1 r1 e2 r2 e3 r3 b] by simp
  have xu: "axios_post ax ''/api/leads/update'' l (remote m) = (Inl e1, r1) \<and> isRetryable e1
        \<and> axios_post ax ''/api/leads/update'' l r1 = (Inl e2, r2) \<and> isRetryable e2
        \<and> axios_post ax ''/api/leads/update'' l r2 = (Inl e3, r3) \<and> isRetryable e3
       \<longrightarrow> updateLead ax b l m
            = (Inl (new_Error (''Max retries exhausted after 3 attempts. Last error: ''
                               @ error_message e3)),
               \<lparr>remote = r3, wire = wire m @ backoff_trace b 3\<rparr>)"
    unfolding updateLead_def
    using post_exhausted [of ax "''/api/leads/update''" l m e1 r1 e2 r2 e3 r3 b] by simp
  show ?thesis
    apply (intro conjI withRetry_trace_3 t1 t2 t3 attempts_of_backoff_trace x s f xl xc xu impI
                 backoff_trace_3_positive allI)
          apply assumption
         apply (erule lookup_returned)
        apply (unfold createLead_def updateLead_def)
        apply (erule post_returned)
       apply (erule post_returned)
      apply (erule lookup_thrown)
     apply (erule post_thrown)
    apply (erule post_thrown)
    done
qed

theorem withRetry_three_attempts_backoff_aggregate_witness:
  "lookupLead mockedAxios 1000 ''jane@example.com''
     \<lparr>remote = \<lparr>get_replies = [Inl (status_error 500), Inl (status_error 500), Inl (status_error 500)],
                post_replies = []\<rparr>,
      wire = []\<rparr>
   = (Inl (new_Error ''Max retries exhausted after 3 attempts. Last error: [object Object]''),
      \<lparr>remote = \<lparr>get_replies = [], post_replies = []\<rparr>,
       wire = [Attempt 1, Sleep 1000, Attempt 2, Sleep 2000, Attempt 3]\<rparr>)
   \<and> updateLead mockedAxios 1000 mockLead
     \<lparr>remote = \<lparr>get_replies = [],
                post_replies = [Inl (status_error 500), Inl (status_error 500), Inl (status_error 500)]\<rparr>,
      wire = []\<rparr>
   = (Inl (new_Error ''Max retries exhausted after 3 attempts. Last error: [object Object]''),
      \<lparr>remote = \<lparr>get_replies = [], post_replies = []\<rparr>,
       wire = [Attempt 1, Sleep 1000, Attempt 2, Sleep 2000, Attempt 3]\<rparr>)"
proof -
  let ?e = "status_error 500"
  let ?g = "axios_get mockedAxios ''/api/leads/lookup'' ''jane@example.com''"
  let ?p = "axios_post mockedAxios ''/api/leads/update'' mockLead"
  let ?fn = "lookupLead_request mockedAxios ''jane@example.com''"
  have r: "isRetryable ?e" "\<not> (isAxiosError ?e \<and> status ?e = Some 404)"
    by code_simp+
  have c1: "?g \<lparr>get_replies = [Inl ?e, Inl ?e, Inl ?e], post_replies = []\<rparr>
              = (Inl ?e, \<lparr>get_replies = [Inl ?e, Inl ?e], post_replies = []\<rparr>)"
    by code_simp
  have c2: "?g \<lparr>get_replies = [Inl ?e, Inl ?e], post_replies = []\<rparr>
              = (Inl ?e, \<lparr>get_replies = [Inl ?e], post_replies = []\<rparr>)"
    by code_simp
  have c3: "?g \<lparr>get_replies = [Inl ?e], post_replies = []\<rparr>
              = (Inl ?e, \<lparr>get_replies = [], post_replies = []\<rparr>)"
    by code_simp
  have d1: "?p \<lparr>get_replies = [], post_replies = [Inl ?e, Inl ?e, Inl ?e]\<rparr>
              = (Inl ?e, \<lparr>get_replies = [], post_replies = [Inl ?e, Inl ?e]\<rparr>)"
    by code_simp
  have d2: "?p \<lparr>get_replies = [], post_replies = [Inl ?e, Inl ?e]\<rparr>
              = (Inl ?e, \<lparr>get_replies = [], post_replies = [Inl ?e]\<rparr>)"
    by code_simp
  have d3: "?p \<lparr>get_replies = [], post_replies = [Inl ?e]\<rparr>
              = (Inl ?e, \<lparr>get_replies = [], post_replies = []\<rparr>)"
    by code_simp
  have m: "error_message ?e = ''[object Object]''"
    by code_simp
  have tr: "backoff_trace 1000 3 = [Attempt 1, Sleep 1000, Attempt 2, Sleep 2000, Attempt 3]"
    by (simp add: backoff_trace_3 wait_after_def)
  note lk = withRetry_three_attempts_backoff_aggregate
      [where b = 1000 and fn = ?fn
         and n = "\<lparr>remote = \<lparr>get_replies = [Inl ?e, Inl ?e, Inl ?e], post_replies = []\<rparr>, wire = []\<rparr>"
         and ax = mockedAxios and em = "''jane@example.com''" and l = mockLead and j = 3
         and m = "\<lparr>remote = \<lparr>get_replies = [Inl ?e, Inl ?e, Inl ?e], post_replies = []\<rparr>, wire = []\<rparr>"
         and ?e1.0 = ?e and ?r1.0 = "\<lparr>get_replies = [Inl ?e, Inl ?e], post_replies = []\<rparr>"
         and ?e2.0 = ?e and ?r2.0 = "\<lparr>get_replies = [Inl ?e], post_replies = []\<rparr>"
         and ?e3.0 = ?e and ?r3.0 = "\<lparr>get_replies = [], post_replies = []\<rparr>",
       THEN conjunct2, THEN conjunct2, THEN conjunct2, THEN conjunct2, THEN conjunct2,
       THEN conjunct2, THEN conjunct2, THEN conjunct2, THEN conjunct2, THEN conjunct1]
  note up = withRetry_three_attempts_backoff_aggregate
      [where b = 1000 and fn = ?fn
         and n = "\<lparr>remote = \<lparr>get_replies = [], post_replies = [Inl ?e, Inl ?e, Inl ?e]\<rparr>, wire = []\<rparr>"
         and ax = mockedAxios and em = "''jane@example.com''" and l = mockLead and j = 3
         and m = "\<lparr>remote = \<lparr>get_replies = [], post_replies = [Inl ?e, Inl ?e, Inl ?e]\<rparr>, wire = []\<rparr>"
         and ?e1.0 = ?e and ?r1.0 = "\<lparr>get_replies = [], post_replies = [Inl ?e, Inl ?e]\<rparr>"
         and ?e2.0 = ?e and ?r2.0 = "\<lparr>get_replies = [], post_replies = [Inl ?e]\<rparr>"
         and ?e3.0 = ?e and ?r3.0 = "\<lparr>get_replies = [], post_replies = []\<rparr>",
       THEN conjunct2, THEN conjunct2, THEN conjunct2, THEN conjunct2, THEN conjunct2,
       THEN conjunct2, THEN conjunct2, THEN conjunct2, THEN conjunct2, THEN conjunct2,
       THEN conjunct2, THEN conjunct1]
  show ?thesis
    using lk up r c1 c2 c3 d1 d2 d3 m tr by simp
qed

section \<open>The processors, record by record\<close>

lemma api_operations_lookup_failed:
  assumes "lookup cl (email l) (world st) = (Inl err, w1)"
  shows "api_operations cl l st = (Inl err, st\<lparr>world := w1, calls := calls st @ [Lookup (email l)]\<rparr>)"
  using assms by (simp add: api_operations_def call_lookup_def)

lemma api_operations_compare_throws:
  assumes "lookup cl (email l) (world st) = (Inr existing, w1)" "truthy existing"
    and "leadsMatch l existing = Inl err"
  shows "api_operations cl l st = (Inl err, st\<lparr>world := w1, calls := calls st @ [Lookup (email l)]\<rparr>)"
  using assms by (simp add: api_operations_def call_lookup_def)

lemma api_operations_identical:
  assumes "lookup cl (email l) (world st) = (Inr existing, w1)" "truthy existing"
    and "leadsMatch l existing = Inr True"
  shows "api_operations cl l st
           = (Inr Skipped, st\<lparr>world := w1, calls := calls st @ [Lookup (email l)]\<rparr>)"
  using assms by (simp add: api_operations_def call_lookup_def)

lemma api_operations_differs:
  assumes "lookup cl (email l) (world st) = (Inr existing, w1)" "truthy existing"
    and "leadsMatch l existing = Inr False" and "update cl l w1 = (res, w2)"
  shows "api_operations cl l st
           = (case res of Inl err \<Rightarrow> Inl err | Inr u \<Rightarrow> Inr Updated,
              st\<lparr>world := w2, calls := calls st @ [Lookup (email l), Update l]\<rparr>)"
  using assms by (simp add: api_operations_def call_lookup_def call_update_def split: sum.splits)

lemma api_operations_not_found:
  assumes "lookup cl (email l) (world st) = (Inr existing, w1)" "\<not> truthy existing"
    and "create cl l w1 = (res, w2)"
  shows "api_operations cl l st
           = (case res of Inl err \<Rightarrow> Inl err | Inr c \<Rightarrow> Inr Created,
              st\<lparr>world := w2, calls := calls st @ [Lookup (email l), Create l]\<rparr>)"
  using assms by (simp add: api_operations_def call_lookup_def call_create_def split: sum.splits)

lemma processLead_fresh:
  assumes "isValid (validateLead l)" "toLowerCase (email l) \<notin> seenEmails st"
    and "api_operations cl l (st\<lparr>seenEmails := insert (toLowerCase (email l)) (seenEmails st)\<rparr>)
           = (res, st')"
  shows "processLead cl l st =
           st'\<lparr>pushed := pushed st' @
             [case res of
                Inr a \<Rightarrow> \<lparr> lead = l, action = a, error = None \<rparr>
              | Inl err \<Rightarrow>
                  if status err = Some 409 then \<lparr> lead = l, action = Skipped, error = None \<rparr>
                  else \<lparr> lead = l, action = Error, error = Some (error_message err) \<rparr>]\<rparr>"
  using assms by (simp add: processLead_def push_def split: sum.splits)

lemma processLead_duplicate:
  assumes "isValid (validateLead l)" "toLowerCase (email l) \<in> seenEmails st"
  shows "processLead cl l st
           = st\<lparr>pushed := pushed st @ [\<lparr> lead = l, action = Skipped, error = None \<rparr>]\<rparr>"
  using assms by (simp add: processLead_def push_def)

lemma processLead_seenEmails:
  "seenEmails (processLead cl l st)
     = (if isValid (validateLead l) then insert (toLowerCase (email l)) (seenEmails st)
        else seenEmails st)"
proof (cases "isValid (validateLead l)")
  case False
  then show ?thesis by (simp add: processLead_def push_def)
next
  case valid: True
  show ?thesis
  proof (cases "toLowerCase (email l) \<in> seenEmails st")
    case True
    with valid show ?thesis by (auto simp: processLead_duplicate)
  next
    case False
    obtain res st' where a: "api_operations cl l
        (st\<lparr>seenEmails := insert (toLowerCase (email l)) (seenEmails st)\<rparr>) = (res, st')"
      by (cases "api_operations cl l
        (st\<lparr>seenEmails := insert (toLowerCase (email l)) (seenEmails st)\<rparr>)")
    from api_operations_frame [OF a] valid processLead_fresh [OF valid False a]
    show ?thesis by simp
  qed
qed

lemma processLeads_loop_seenEmails:
  "seenEmails (processLeads_loop cl pre st)
     = seenEmails st \<union> {toLowerCase (email p) | p. p \<in> set pre \<and> isValid (validateLead p)}"
  unfolding processLeads_loop_def
proof (induction pre arbitrary: st)
  case Nil
  then show ?case by simp
next
  case (Cons a pre)
  show ?case
    by (simp add: Cons.IH processLead_seenEmails) blast
qed

lemma leadsMatch_strings:
  assumes "get_prop ''name'' existing = Some (JStr n)" "get_prop ''email'' existing = Some (JStr e)"
    and "get_prop ''company'' existing = Some (JStr c)" "get_prop ''source'' existing = Some (JStr s)"
  shows "leadsMatch l existing
           = Inr (name l = n \<and> toLowerCase (email l) = toLowerCase e
                  \<and> normalizeCompany (company l) = normalizeCompany c \<and> source l = s)"
  using assms by (auto simp: leadsMatch_def string_receiver_def)

lemma processLeads_loop_append:
  "processLeads_loop cl (xs @ ys) st = processLeads_loop cl ys (processLeads_loop cl xs st)"
  by (simp add: processLeads_loop_def)

lemma processLeads_loop_Cons:
  "processLeads_loop cl (x # xs) st = processLeads_loop cl xs (processLead cl x st)"
  by (simp add: processLeads_loop_def)

lemma processLead_calls_fresh:
  assumes "isValid (validateLead l)" "toLowerCase (email l) \<notin> seenEmails st"
  shows "\<exists>rest. calls (processLead cl l st) = calls st @ Lookup (email l) # rest
                \<and> (rest = [] \<or> rest = [Create l] \<or> rest = [Update l])"
proof -
  obtain res st' where a: "api_operations cl l
      (st\<lparr>seenEmails := insert (toLowerCase (email l)) (seenEmails st)\<rparr>) = (res, st')"
    by (cases "api_operations cl l
      (st\<lparr>seenEmails := insert (toLowerCase (email l)) (seenEmails st)\<rparr>)")
  from api_operations_frame [OF a] processLead_fresh [OF assms a]
  show ?thesis by simp
qed

lemma call_lookup_io:
  "call_lookup cl em (st :: 'w io) = (res, st') \<Longrightarrow> calls st' = calls st @ [Lookup em]"
  by (auto simp: call_lookup_def split: prod.splits)

lemma call_create_io:
  "call_create cl l (st :: 'w io) = (res, st') \<Longrightarrow> calls st' = calls st @ [Create l]"
  by (auto simp: call_create_def split: prod.splits)

lemma call_update_io:
  "call_update cl l (st :: 'w io) = (res, st') \<Longrightarrow> calls st' = calls st @ [Update l]"
  by (auto simp: call_update_def split: prod.splits)

lemma handleExistingLead_calls:
  "handleExistingLead cl l ex st = (res, st') \<Longrightarrow> calls st' = calls st \<or> calls st' = calls st @ [Update l]"
  by (auto simp: handleExistingLead_def split: if_splits prod.splits sum.splits dest!: call_update_io)

lemma handleNewLead_calls:
  "handleNewLead cl l st = (res, st') \<Longrightarrow> calls st' = calls st @ [Create l]"
  by (auto simp: handleNewLead_def split: prod.splits sum.splits dest!: call_create_io)

lemma processOneLead_invalid:
  "\<not> isValid (validateLead l) \<Longrightarrow>
     processOneLead cl l (seen, st)
       = (createResult l Error ''Validation failed'' (Some (errors (validateLead l))), seen, st)"
  by (simp add: processOneLead_def)

lemma processOneLead_duplicate:
  "isValid (validateLead l) \<Longrightarrow> toLowerCase (email l) \<in> seen \<Longrightarrow>
     processOneLead cl l (seen, st)
       = (createResult l Skipped ''Duplicate email in batch'' (Some [''Duplicate email in batch'']),
          seen, st)"
  by (simp add: processOneLead_def)

lemma processOneLead_fresh:
  assumes "isValid (validateLead l)" "toLowerCase (email l) \<notin> seen"
    and "processOneLead cl l (seen, st) = (res, seen', st')"
  shows "seen' = insert (toLowerCase (email l)) seen
         \<and> (\<exists>rest. calls st' = calls st @ Lookup (email l) # rest
                    \<and> (rest = [] \<or> rest = [Create l] \<or> rest = [Update l]))"
  using assms
  by (auto simp: processOneLead_def Let_def split: prod.splits sum.splits if_splits
           dest!: call_lookup_io handleExistingLead_calls handleNewLead_calls)

lemma processOneLead_seen:
  assumes "processOneLead cl l (seen, st) = (res, seen', st')"
  shows "seen' = (if isValid (validateLead l) then insert (toLowerCase (email l)) seen else seen)"
proof (cases "isValid (validateLead l)")
  case False
  with assms show ?thesis by (simp add: processOneLead_invalid)
next
  case valid: True
  show ?thesis
  proof (cases "toLowerCase (email l) \<in> seen")
    case True
    with valid assms show ?thesis by (auto simp: processOneLead_duplicate)
  next
    case False
    from processOneLead_fresh [OF valid False assms] valid show ?thesis by simp
  qed
qed

lemma processLeads2_loop_seen:
  "processLeads2_loop cl pre (rs, seen, st) = (rs', seen', st') \<Longrightarrow>
     seen' = seen \<union> {toLowerCase (email p) | p. p \<in> set pre \<and> isValid (validateLead p)}"
proof (induction pre arbitrary: rs seen st)
  case Nil
  then show ?case by simp
next
  case (Cons a pre)
  obtain res seen1 st1 where step: "processOneLead cl a (seen, st) = (res, seen1, st1)"
    by (cases "processOneLead cl a (seen, st)") auto
  with Cons.prems have "processLeads2_loop cl pre (rs @ [res], seen1, st1) = (rs', seen', st')"
    by simp
  from Cons.IH [OF this] processOneLead_seen [OF step] show ?case by auto
qed

lemma key_seen_iff:
  "k \<in> {toLowerCase (email p) | p. p \<in> set pre \<and> isValid (validateLead p)}
     \<longleftrightarrow> (\<exists>p \<in> set pre. isValid (validateLead p) \<and> toLowerCase (email p) = k)"
  by auto

lemma leadsAreIdentical_raw:
  "leadsAreIdentical existing l
     \<longleftrightarrow> get_prop ''name'' existing = Some (JStr (name l))
         \<and> get_prop ''email'' existing = Some (JStr (email l))
         \<and> get_prop ''company'' existing = Some (JStr (company l))
         \<and> get_prop ''source'' existing = Some (JStr (source l))"
  by (simp add: leadsAreIdentical_def json_of_lead_def)

lemma processOneLead_found_identical:
  assumes "isValid (validateLead l)" "toLowerCase (email l) \<notin> seen"
    and "lookup cl (email l) (world io) = (Inr existing, w1)" "truthy existing"
    and "leadsAreIdentical existing l"
  shows "processOneLead cl l (seen, io)
           = (createResult l Skipped ''Lead data identical'' None,
              insert (toLowerCase (email l)) seen,
              io\<lparr>world := w1, calls := calls io @ [Lookup (email l)]\<rparr>)"
  using assms by (simp add: processOneLead_def call_lookup_def handleExistingLead_def)

lemma processOneLead_found_differs:
  assumes "isValid (validateLead l)" "toLowerCase (email l) \<notin> seen"
    and "lookup cl (email l) (world io) = (Inr existing, w1)" "truthy existing"
    and "\<not> leadsAreIdentical existing l" and "update cl l w1 = (res, w2)"
  shows "processOneLead cl l (seen, io)
           = (case res of
                Inr u \<Rightarrow> createResult l Updated ''Lead updated successfully'' None
              | Inl err \<Rightarrow> createResult l Error ''API update failed'' (Some [getErrorMessage err]),
              insert (toLowerCase (email l)) seen,
              io\<lparr>world := w2, calls := calls io @ [Lookup (email l), Update l]\<rparr>)"
  using assms
  by (simp add: processOneLead_def call_lookup_def handleExistingLead_def call_update_def
           split: sum.splits)

text \<open>
  The claim C3 as the specification words it promises, of every found record, the outcome
  skipped when the four normalized fields are equal and the outcome updated when one differs.
  Three runs contradict it. With a valid lead, alone in its batch, whose company differs from
  the record that the lookup finds, and an update that the client rejects, the outcome is an
  error, in both processors. With a found record that differs from the lead in the case of the
  email only, so that the four normalized fields are equal, the processor of
  \<^verbatim>\<open>processOneLead\<close> compares the fields as they stand, calls update and reports updated, where
  the processor of \<^verbatim>\<open>leadsMatch\<close> skips. And with a found record that has no company, the
  comparison of \<^verbatim>\<open>leadsMatch\<close> throws: the outcome is an error and no update is called.
\<close>

theorem found_record_not_always_skipped_or_updated_counterexample:
  "isValid (validateLead changedLead)
   \<and> lookup mockedApiClient (email changedLead) update_fails
       = (Inr (json_of_lead existingLead), update_fails\<lparr>lookup_replies := []\<rparr>)
   \<and> normalizeCompany (company changedLead) \<noteq> normalizeCompany (company existingLead)
   \<and> map action (results (fst (processLeads mockedApiClient [changedLead] update_fails))) = [Error]
   \<and> calls (snd (processLeads mockedApiClient [changedLead] update_fails))
       = [Lookup (email changedLead), Update changedLead]
   \<and> map action_r (fst (fst (processLeads2 mockedApiClient [changedLead] update_fails))) = [Error]
   \<and> isValid (validateLead mockLead)
   \<and> lookup mockedApiClient (email mockLead) found_in_capitals
       = (Inr (json_of_lead shoutedLead), found_in_capitals\<lparr>lookup_replies := []\<rparr>)
   \<and> name mockLead = name shoutedLead
   \<and> toLowerCase (email mockLead) = toLowerCase (email shoutedLead)
   \<and> normalizeCompany (company mockLead) = normalizeCompany (company shoutedLead)
   \<and> source mockLead = source shoutedLead
   \<and> map action_r (fst (fst (processLeads2 mockedApiClient [mockLead] found_in_capitals)))
       = [Updated]
   \<and> calls (snd (processLeads2 mockedApiClient [mockLead] found_in_capitals))
       = [Lookup (email mockLead), Update mockLead]
   \<and> map action (results (fst (processLeads mockedApiClient [mockLead] found_in_capitals)))
       = [Skipped]
   \<and> lookup mockedApiClient (email mockLead) found_flat_without_company
       = (Inr flat_without_company, found_flat_without_company\<lparr>lookup_replies := []\<rparr>)
   \<and> get_prop ''company'' flat_without_company = None
   \<and> results (fst (processLeads mockedApiClient [mockLead] found_flat_without_company))
       = [\<lparr> lead = mockLead, action = Error,
            error = Some ''Cannot read properties of undefined (reading 'trim')'' \<rparr>]
   \<and> calls (snd (processLeads mockedApiClient [mockLead] found_flat_without_company))
       = [Lookup (email mockLead)]"
  by code_simp

text \<open>
  Claim C3, amended. Take a valid lead whose lower-cased email is not yet in the set of seen
  emails, and a lookup that finds a record with the four fields as strings. In the processor
  of \<^verbatim>\<open>leadsMatch\<close>: if the names are equal, the emails equal without regard to case, the
  companies equal after \<^verbatim>\<open>normalizeCompany\<close> (trimmed, runs of whitespace collapsed) and the
  sources equal, the outcome is skipped and the lookup is the only client call made for the
  record: no create, no update. If at least one of the four differs, the client calls for the
  record are the lookup followed by one update of the incoming lead, and the outcome is
  updated whenever that update succeeds. In the processor of \<^verbatim>\<open>processOneLead\<close> the same
  holds with the four fields compared as they stand, by \<^verbatim>\<open>leadsAreIdentical\<close>: skipped, with
  the lookup as the only call, when the four strings are equal to the incoming ones; otherwise
  the lookup followed by one update, and updated whenever that update succeeds.
\<close>

theorem found_record_skipped_when_identical_else_update_called:
  assumes valid: "isValid (validateLead l)"
    and fresh: "toLowerCase (email l) \<notin> seenEmails st"
    and found: "lookup cl (email l) (world st) = (Inr existing, w1)"
    and fields: "get_prop ''name'' existing = Some (JStr n)"
                "get_prop ''email'' existing = Some (JStr e)"
                "get_prop ''company'' existing = Some (JStr c)"
                "get_prop ''source'' existing = Some (JStr s)"
  shows "(name l = n \<and> toLowerCase (email l) = toLowerCase e
            \<and> normalizeCompany (company l) = normalizeCompany c \<and> source l = s
          \<longrightarrow> processLead cl l st
              = st\<lparr>world := w1, calls := calls st @ [Lookup (email l)],
                   seenEmails := insert (toLowerCase (email l)) (seenEmails st),
                   pushed := pushed st @ [\<lparr> lead = l, action = Skipped, error = None \<rparr>]\<rparr>)
       \<and> (\<not> (name l = n \<and> toLowerCase (email l) = toLowerCase e
               \<and> normalizeCompany (company l) = normalizeCompany c \<and> source l = s)
          \<longrightarrow> calls (processLead cl l st) = calls st @ [Lookup (email l), Update l]
              \<and> world (processLead cl l st) = snd (update cl l w1)
              \<and> (\<forall>u w2. update cl l w1 = (Inr u, w2)
                    \<longrightarrow> processLead cl l st
                        = st\<lparr>world := w2, calls := calls st @ [Lookup (email l), Update l],
                             seenEmails := insert (toLowerCase (email l)) (seenEmails st),
                             pushed := pushed st @ [\<lparr> lead = l, action = Updated, error = None \<rparr>]\<rparr>))
       \<and> (toLowerCase (email l) \<notin> seen \<and> lookup cl (email l) (world io) = (Inr existing, w1)
          \<longrightarrow> (name l = n \<and> email l = e \<and> company l = c \<and> source l = s
               \<longrightarrow> processOneLead cl l (seen, io)
                   = (createResult l Skipped ''Lead data identical'' None,
                      insert (toLowerCase (email l)) seen,
                      io\<lparr>world := w1, calls := calls io @ [Lookup (email l)]\<rparr>))
              \<and> (\<not> (name l = n \<and> email l = e \<and> company l = c \<and> source l = s)
               \<longrightarrow> calls (snd (snd (processOneLead cl l (seen, io))))
                     = calls io @ [Lookup (email l), Update l]
                   \<and> world (snd (snd (processOneLead cl l (seen, io)))) = snd (update cl l w1)
                   \<and> (\<forall>u w2. update cl l w1 = (Inr u, w2)
                         \<longrightarrow> processOneLead cl l (seen, io)
                             = (createResult l Updated ''Lead updated successfully'' None,
                                insert (toLowerCase (email l)) seen,
                                io\<lparr>world := w2,
                                   calls := calls io @ [Lookup (email l), Update l]\<rparr>))))"
proof -
  let ?st1 = "st\<lparr>seenEmails := insert (toLowerCase (email l)) (seenEmails st)\<rparr>"
  have t: "truthy existing"
    using fields(1) get_prop_Some_is_object is_object_truthy by blast
  have m: "leadsMatch l existing
           = Inr (name l = n \<and> toLowerCase (email l) = toLowerCase e
                  \<and> normalizeCompany (company l) = normalizeCompany c \<and> source l = s)"
    using fields by (rule leadsMatch_strings)
  have found1: "lookup cl (email l) (world ?st1) = (Inr existing, w1)"
    using found by simp
  have A: "(name l = n \<and> toLowerCase (email l) = toLowerCase e
            \<and> normalizeCompany (company l) = normalizeCompany c \<and> source l = s
          \<longrightarrow> processLead cl l st
              = st\<lparr>world := w1, calls := calls st @ [Lookup (email l)],
                   seenEmails := insert (toLowerCase (email l)) (seenEmails st),
                   pushed := pushed st @ [\<lparr> lead = l, action = Skipped, error = None \<rparr>]\<rparr>)
       \<and> (\<not> (name l = n \<and> toLowerCase (email l) = toLowerCase e
               \<and> normalizeCompany (company l) = normalizeCompany c \<and> source l = s)
          \<longrightarrow> calls (processLead cl l st) = calls st @ [Lookup (email l), Update l]
              \<and> world (processLead cl l st) = snd (update cl l w1)
              \<and> (\<forall>u w2. update cl l w1 = (Inr u, w2)
                    \<longrightarrow> processLead cl l st
                        = st\<lparr>world := w2, calls := calls st @ [Lookup (email l), Update l],
                             seenEmails := insert (toLowerCase (email l)) (seenEmails st),
                             pushed := pushed st @ [\<lparr> lead = l, action = Updated, error = None \<rparr>]\<rparr>))"
  proof (cases "name l = n \<and> toLowerCase (email l) = toLowerCase e
                  \<and> normalizeCompany (company l) = normalizeCompany c \<and> source l = s")
    case True
    with m have "leadsMatch l existing = Inr True" by simp
    from api_operations_identical [OF found1 t this]
    have "processLead cl l st
              = st\<lparr>world := w1, calls := calls st @ [Lookup (email l)],
                   seenEmails := insert (toLowerCase (email l)) (seenEmails st),
                   pushed := pushed st @ [\<lparr> lead = l, action = Skipped, error = None \<rparr>]\<rparr>"
      using processLead_fresh [OF valid fresh] by simp
    with True show ?thesis by simp
  next
    case False
    with m have d: "leadsMatch l existing = Inr False" by simp
    obtain res w2 where u: "update cl l w1 = (res, w2)"
      by (cases "update cl l w1")
    note a = api_operations_differs [OF found1 t d u]
    note p = processLead_fresh [OF valid fresh a]
    have "calls (processLead cl l st) = calls st @ [Lookup (email l), Update l]"
      using p by simp
    moreover have "world (processLead cl l st) = snd (update cl l w1)"
      using p u by simp
    moreover have "\<forall>u' w2'. update cl l w1 = (Inr u', w2')
                    \<longrightarrow> processLead cl l st
                        = st\<lparr>world := w2', calls := calls st @ [Lookup (email l), Update l],
                             seenEmails := insert (toLowerCase (email l)) (seenEmails st),
                             pushed := pushed st @ [\<lparr> lead = l, action = Updated, error = None \<rparr>]\<rparr>"
      using p u by auto
    ultimately show ?thesis using False by blast
  qed
  have i: "leadsAreIdentical existing l
           \<longleftrightarrow> name l = n \<and> email l = e \<and> company l = c \<and> source l = s"
    using fields by (auto simp: leadsAreIdentical_raw)
  have B: "toLowerCase (email l) \<notin> seen \<and> lookup cl (email l) (world io) = (Inr existing, w1)
          \<longrightarrow> (name l = n \<and> email l = e \<and> company l = c \<and> source l = s
               \<longrightarrow> processOneLead cl l (seen, io)
                   = (createResult l Skipped ''Lead data identical'' None,
                      insert (toLowerCase (email l)) seen,
                      io\<lparr>world := w1, calls := calls io @ [Lookup (email l)]\<rparr>))
              \<and> (\<not> (name l = n \<and> email l = e \<and> company l = c \<and> source l = s)
               \<longrightarrow> calls (snd (snd (processOneLead cl l (seen, io))))
                     = calls io @ [Lookup (email l), Update l]
                   \<and> world (snd (snd (processOneLead cl l (seen, io)))) = snd (update cl l w1)
                   \<and> (\<forall>u w2. update cl l w1 = (Inr u, w2)
                         \<longrightarrow> processOneLead cl l (seen, io)
                             = (createResult l Updated ''Lead updated successfully'' None,
                                insert (toLowerCase (email l)) seen,
                                io\<lparr>world := w2,
                                   calls := calls io @ [Lookup (email l), Update l]\<rparr>)))"
  proof (intro impI conjI)
    assume h: "toLowerCase (email l) \<notin> seen \<and> lookup cl (email l) (world io) = (Inr existing, w1)"
      and eq: "name l = n \<and> email l = e \<and> company l = c \<and> source l = s"
    from h have f2: "toLowerCase (email l) \<notin> seen"
      and k2: "lookup cl (email l) (world io) = (Inr existing, w1)"
      by simp_all
    from eq i have "leadsAreIdentical existing l"
      by simp
    from processOneLead_found_identical [OF valid f2 k2 t this]
    show "processOneLead cl l (seen, io)
            = (createResult l Skipped ''Lead data identical'' None,
               insert (toLowerCase (email l)) seen,
               io\<lparr>world := w1, calls := calls io @ [Lookup (email l)]\<rparr>)" .
  next
    assume h: "toLowerCase (email l) \<notin> seen \<and> lookup cl (email l) (world io) = (Inr existing, w1)"
      and ne: "\<not> (name l = n \<and> email l = e \<and> company l = c \<and> source l = s)"
    from h have f2: "toLowerCase (email l) \<notin> seen"
      and k2: "lookup cl (email l) (world io) = (Inr existing, w1)"
      by simp_all
    from ne i have d: "\<not> leadsAreIdentical existing l"
      by simp
    obtain res w2 where u: "update cl l w1 = (res, w2)"
      by (cases "update cl l w1")
    note p = processOneLead_found_differs [OF valid f2 k2 t d u]
    show "calls (snd (snd (processOneLead cl l (seen, io)))) = calls io @ [Lookup (email l), Update l]"
      using p by simp
    show "world (snd (snd (processOneLead cl l (seen, io)))) = snd (update cl l w1)"
      using p u by simp
    show "\<forall>u' w2'. update cl l w1 = (Inr u', w2')
            \<longrightarrow> processOneLead cl l (seen, io)
                = (createResult l Updated ''Lead updated successfully'' None,
                   insert (toLowerCase (email l)) seen,
                   io\<lparr>world := w2', calls := calls io @ [Lookup (email l), Update l]\<rparr>)"
      using p u by auto
  qed
  from A B show ?thesis
    by (intro conjI) (rule conjunct1, assumption, rule conjunct2, assumption, assumption)
qed

theorem found_record_skipped_when_identical_else_update_called_witness:
  "processLead mockedApiClient changedLead (start update_succeeds)
     = \<lparr> world = no_replies, calls = [Lookup (email changedLead), Update changedLead],
         seenEmails = {toLowerCase (email changedLead)},
         pushed = [\<lparr> lead = changedLead, action = Updated, error = None \<rparr>] \<rparr>
   \<and> processOneLead mockedApiClient changedLead ({}, \<lparr> world = update_succeeds, calls = [] \<rparr>)
     = (createResult changedLead Updated ''Lead updated successfully'' None,
        {toLowerCase (email changedLead)},
        \<lparr> world = no_replies, calls = [Lookup (email changedLead), Update changedLead] \<rparr>)"
proof -
  have v: "isValid (validateLead changedLead)"
    by code_simp
  have f: "toLowerCase (email changedLead) \<notin> seenEmails (start update_succeeds)"
    by (simp add: start_def)
  have k: "lookup mockedApiClient (email changedLead) (world (start update_succeeds))
           = (Inr (json_of_lead existingLead), update_succeeds\<lparr>lookup_replies := []\<rparr>)"
    by code_simp
  have p: "get_prop ''name'' (json_of_lead existingLead) = Some (JStr (name existingLead))"
          "get_prop ''email'' (json_of_lead existingLead) = Some (JStr (email existingLead))"
          "get_prop ''company'' (json_of_lead existingLead) = Some (JStr (company existingLead))"
          "get_prop ''source'' (json_of_lead existingLead) = Some (JStr (source existingLead))"
    by (simp_all add: json_of_lead_def)
  have d: "normalizeCompany (company changedLead) \<noteq> normalizeCompany (company existingLead)"
    by code_simp
  have d2: "company changedLead \<noteq> company existingLead"
    by code_simp
  have u: "update mockedApiClient changedLead (update_succeeds\<lparr>lookup_replies := []\<rparr>)
           = (Inr (json_of_lead changedLead), no_replies)"
    by code_simp
  have k2: "lookup mockedApiClient (email changedLead) update_succeeds
           = (Inr (json_of_lead existingLead), update_succeeds\<lparr>lookup_replies := []\<rparr>)"
    by code_simp
  note th = found_record_skipped_when_identical_else_update_called
              [OF v f k p, where seen = "{}" and io = "\<lparr> world = update_succeeds, calls = [] \<rparr>"]
  show ?thesis
    using th d d2 u k2
    by (simp add: start_def)
qed

text \<open>
  Claim C4. Take a valid lead not seen before in its batch, a lookup that finds a record and
  a comparison that finds a difference, so that the processor calls update; let the update
  fail with the thrown value \<open>err\<close>. Then the outcome of the record is an error carrying the
  message of \<open>err\<close>, except when \<open>err\<close> has the response status 409: then the outcome is
  skipped, with no message. In both cases the calls made are the lookup and the update, and
  the loop goes on from the state that the failed update left.
\<close>

theorem update_failure_errored_unless_conflict:
  assumes valid: "isValid (validateLead l)"
    and fresh: "toLowerCase (email l) \<notin> seenEmails st"
    and found: "lookup cl (email l) (world st) = (Inr existing, w1)" "truthy existing"
    and differs: "leadsMatch l existing = Inr False"
    and fails: "update cl l w1 = (Inl err, w2)"
  shows "processLead cl l st
           = st\<lparr>world := w2, calls := calls st @ [Lookup (email l), Update l],
                seenEmails := insert (toLowerCase (email l)) (seenEmails st),
                pushed := pushed st @
                  [if status err = Some 409 then \<lparr> lead = l, action = Skipped, error = None \<rparr>
                   else \<lparr> lead = l, action = Error, error = Some (error_message err) \<rparr>]\<rparr>"
proof -
  let ?st1 = "st\<lparr>seenEmails := insert (toLowerCase (email l)) (seenEmails st)\<rparr>"
  have found1: "lookup cl (email l) (world ?st1) = (Inr existing, w1)"
    using found(1) by simp
  from api_operations_differs [OF found1 found(2) differs fails]
  show ?thesis
    using processLead_fresh [OF valid fresh] by simp
qed

theorem update_failure_errored_unless_conflict_witness:
  "processLead mockedApiClient changedLead (start update_conflicts)
     = \<lparr> world = no_replies, calls = [Lookup (email changedLead), Update changedLead],
         seenEmails = {toLowerCase (email changedLead)},
         pushed = [\<lparr> lead = changedLead, action = Skipped, error = None \<rparr>] \<rparr>
   \<and> processLead mockedApiClient changedLead (start update_fails)
     = \<lparr> world = no_replies, calls = [Lookup (email changedLead), Update changedLead],
         seenEmails = {toLowerCase (email changedLead)},
         pushed = [\<lparr> lead = changedLead, action = Error, error = Some ''API update failed'' \<rparr>] \<rparr>"
proof -
  have v: "isValid (validateLead changedLead)"
    by code_simp
  have t: "truthy (json_of_lead existingLead)"
    by (simp add: json_of_lead_def)
  have d: "leadsMatch changedLead (json_of_lead existingLead) = Inr False"
    by code_simp
  have f1: "toLowerCase (email changedLead) \<notin> seenEmails (start update_conflicts)"
    by (simp add: start_def)
  have k1: "lookup mockedApiClient (email changedLead) (world (start update_conflicts))
            = (Inr (json_of_lead existingLead), update_conflicts\<lparr>lookup_replies := []\<rparr>)"
    by code_simp
  have u1: "update mockedApiClient changedLead (update_conflicts\<lparr>lookup_replies := []\<rparr>)
            = (Inl (status_error 409), no_replies)"
    by code_simp
  have s1: "status (status_error 409) = Some 409"
    by (simp add: status_error_def)
  have f2: "toLowerCase (email changedLead) \<notin> seenEmails (start update_fails)"
    by (simp add: start_def)
  have k2: "lookup mockedApiClient (email changedLead) (world (start update_fails))
            = (Inr (json_of_lead existingLead), update_fails\<lparr>lookup_replies := []\<rparr>)"
    by code_simp
  have u2: "update mockedApiClient changedLead (update_fails\<lparr>lookup_replies := []\<rparr>)
            = (Inl (new_Error ''API update failed''), no_replies)"
    by code_simp
  show ?thesis
    using update_failure_errored_unless_conflict [OF v f1 k1 t d u1]
          update_failure_errored_unless_conflict [OF v f2 k2 t d u2] s1
    by (simp add: start_def)
qed

text \<open>
  The claim C1 as it is worded lets the first occurrence of an email be one that validation
  rejects. Such a record never enters the set of seen emails: in the batch of a nameless record
  followed by a valid record with the same email, the first makes no client call and the
  second is looked up and created, not skipped.
\<close>

theorem invalid_first_occurrence_counterexample:
  "\<not> isValid (validateLead namelessLead)
   \<and> toLowerCase (email namelessLead) = toLowerCase (email mockLead)
   \<and> map action (results (fst (processLeads mockedApiClient [namelessLead, mockLead] no_replies)))
       = [Error, Created]
   \<and> calls (snd (processLeads mockedApiClient [namelessLead, mockLead] no_replies))
       = [Lookup (email mockLead), Create mockLead]"
  by code_simp

text \<open>
  Claim C1, amended. Among the records of a batch that pass validation, and for every
  lower-cased email: the first valid record with that email is the one that reaches the remote
  (its client calls start with the lookup, followed by at most one create or update), and
  every later valid record with that email is resolved as skipped, leaving the world and the
  list of client calls as they were. This holds for every client, so however the first valid
  occurrence ended, an error included. (A record that fails validation is rejected without a
  call and without entering the set, by claim C2.) Stated for the state reached after any
  prefix \<open>pre\<close> of a batch, for both processors.
\<close>

theorem first_valid_occurrence_reaches_remote_later_ones_skipped:
  assumes valid: "isValid (validateLead l)"
  shows "processLeads_loop cl (pre @ l # post) (start w)
           = processLeads_loop cl post (processLead cl l (processLeads_loop cl pre (start w)))
       \<and> ((\<exists>p \<in> set pre. isValid (validateLead p) \<and> toLowerCase (email p) = toLowerCase (email l))
          \<longrightarrow> processLead cl l (processLeads_loop cl pre (start w))
              = (processLeads_loop cl pre (start w))
                  \<lparr>pushed := pushed (processLeads_loop cl pre (start w))
                              @ [\<lparr> lead = l, action = Skipped, error = None \<rparr>]\<rparr>)
       \<and> ((\<forall>p \<in> set pre. isValid (validateLead p) \<longrightarrow> toLowerCase (email p) \<noteq> toLowerCase (email l))
          \<longrightarrow> (\<exists>rest. calls (processLead cl l (processLeads_loop cl pre (start w)))
                         = calls (processLeads_loop cl pre (start w)) @ Lookup (email l) # rest
                      \<and> (rest = [] \<or> rest = [Create l] \<or> rest = [Update l])))
       \<and> (processLeads2_loop cl pre ([], {}, \<lparr> world = w, calls = [] \<rparr>) = (rs, seen, io)
          \<longrightarrow> ((\<exists>p \<in> set pre. isValid (validateLead p) \<and> toLowerCase (email p) = toLowerCase (email l))
                \<longrightarrow> processOneLead cl l (seen, io)
                    = (\<lparr> email_r = email l, action_r = Skipped, details = ''Duplicate email in batch'',
                         errors_r = Some [''Duplicate email in batch''], lead_r = l \<rparr>, seen, io))
              \<and> ((\<forall>p \<in> set pre. isValid (validateLead p) \<longrightarrow> toLowerCase (email p) \<noteq> toLowerCase (email l))
                \<longrightarrow> (\<exists>rest. calls (snd (snd (processOneLead cl l (seen, io))))
                               = calls io @ Lookup (email l) # rest
                            \<and> (rest = [] \<or> rest = [Create l] \<or> rest = [Update l]))))"
proof -
  let ?S = "processLeads_loop cl pre (start w)"
  have seenS: "seenEmails ?S = {toLowerCase (email p) | p. p \<in> set pre \<and> isValid (validateLead p)}"
    by (simp add: processLeads_loop_seenEmails start_def)
  have a: "processLeads_loop cl (pre @ l # post) (start w)
           = processLeads_loop cl post (processLead cl l ?S)"
    by (simp add: processLeads_loop_append processLeads_loop_Cons)
  have b: "(\<exists>p \<in> set pre. isValid (validateLead p) \<and> toLowerCase (email p) = toLowerCase (email l))
          \<longrightarrow> processLead cl l ?S
              = ?S\<lparr>pushed := pushed ?S @ [\<lparr> lead = l, action = Skipped, error = None \<rparr>]\<rparr>"
  proof
    assume "\<exists>p \<in> set pre. isValid (validateLead p) \<and> toLowerCase (email p) = toLowerCase (email l)"
    then have "toLowerCase (email l) \<in> seenEmails ?S"
      unfolding seenS key_seen_iff by simp
    with valid show "processLead cl l ?S
              = ?S\<lparr>pushed := pushed ?S @ [\<lparr> lead = l, action = Skipped, error = None \<rparr>]\<rparr>"
      by (rule processLead_duplicate)
  qed
  have c: "(\<forall>p \<in> set pre. isValid (validateLead p) \<longrightarrow> toLowerCase (email p) \<noteq> toLowerCase (email l))
          \<longrightarrow> (\<exists>rest. calls (processLead cl l ?S) = calls ?S @ Lookup (email l) # rest
                      \<and> (rest = [] \<or> rest = [Create l] \<or> rest = [Update l]))"
  proof
    assume "\<forall>p \<in> set pre. isValid (validateLead p) \<longrightarrow> toLowerCase (email p) \<noteq> toLowerCase (email l)"
    then have "toLowerCase (email l) \<notin> seenEmails ?S"
      unfolding seenS key_seen_iff by simp
    with valid show "\<exists>rest. calls (processLead cl l ?S) = calls ?S @ Lookup (email l) # rest
                      \<and> (rest = [] \<or> rest = [Create l] \<or> rest = [Update l])"
      by (rule processLead_calls_fresh)
  qed
  have d: "processLeads2_loop cl pre ([], {}, \<lparr> world = w, calls = [] \<rparr>) = (rs, seen, io)
          \<longrightarrow> ((\<exists>p \<in> set pre. isValid (validateLead p) \<and> toLowerCase (email p) = toLowerCase (email l))
                \<longrightarrow> processOneLead cl l (seen, io)
                    = (\<lparr> email_r = email l, action_r = Skipped, details = ''Duplicate email in batch'',
                         errors_r = Some [''Duplicate email in batch''], lead_r = l \<rparr>, seen, io))
              \<and> ((\<forall>p \<in> set pre. isValid (validateLead p) \<longrightarrow> toLowerCase (email p) \<noteq> toLowerCase (email l))
                \<longrightarrow> (\<exists>rest. calls (snd (snd (processOneLead cl l (seen, io))))
                               = calls io @ Lookup (email l) # rest
                            \<and> (rest = [] \<or> rest = [Create l] \<or> rest = [Update l])))"
  proof (intro impI conjI)
    assume run: "processLeads2_loop cl pre ([], {}, \<lparr> world = w, calls = [] \<rparr>) = (rs, seen, io)"
    have seen: "seen = {toLowerCase (email p) | p. p \<in> set pre \<and> isValid (validateLead p)}"
      using processLeads2_loop_seen [OF run] by simp
    {
      assume "\<exists>p \<in> set pre. isValid (validateLead p) \<and> toLowerCase (email p) = toLowerCase (email l)"
      then have "toLowerCase (email l) \<in> seen"
        unfolding seen key_seen_iff by simp
      with valid show "processOneLead cl l (seen, io)
                    = (\<lparr> email_r = email l, action_r = Skipped, details = ''Duplicate email in batch'',
                         errors_r = Some [''Duplicate email in batch''], lead_r = l \<rparr>, seen, io)"
        by (simp add: processOneLead_duplicate createResult_def)
    }
    {
      assume "\<forall>p \<in> set pre. isValid (validateLead p) \<longrightarrow> toLowerCase (email p) \<noteq> toLowerCase (email l)"
      then have fresh: "toLowerCase (email l) \<notin> seen"
        unfolding seen key_seen_iff by simp
      obtain res seen' io' where step: "processOneLead cl l (seen, io) = (res, seen', io')"
        by (cases "processOneLead cl l (seen, io)") auto
      from processOneLead_fresh [OF valid fresh step] step
      show "\<exists>rest. calls (snd (snd (processOneLead cl l (seen, io))))
                               = calls io @ Lookup (email l) # rest
                            \<and> (rest = [] \<or> rest = [Create l] \<or> rest = [Update l])"
        by simp
    }
  qed
  show ?thesis
    by (intro conjI a b c d)
qed

theorem first_valid_occurrence_reaches_remote_later_ones_skipped_witness:
  "processLeads_loop mockedApiClient [mockLead] (start lookup_fails)
     = \<lparr> world = no_replies, calls = [Lookup (email mockLead)],
         seenEmails = {toLowerCase (email mockLead)},
         pushed = [\<lparr> lead = mockLead, action = Error, error = Some ''API lookup failed'' \<rparr>] \<rparr>
   \<and> processLead mockedApiClient janeAgain
       (processLeads_loop mockedApiClient [mockLead] (start lookup_fails))
     = \<lparr> world = no_replies, calls = [Lookup (email mockLead)],
         seenEmails = {toLowerCase (email mockLead)},
         pushed = [\<lparr> lead = mockLead, action = Error, error = Some ''API lookup failed'' \<rparr>,
                   \<lparr> lead = janeAgain, action = Skipped, error = None \<rparr>] \<rparr>"
proof -
  have v: "isValid (validateLead janeAgain)"
    by code_simp
  have v1: "isValid (validateLead mockLead)"
    by code_simp
  have k: "toLowerCase (email mockLead) = toLowerCase (email janeAgain)"
    by code_simp
  have f: "toLowerCase (email mockLead) \<notin> seenEmails (start lookup_fails)"
    by (simp add: start_def)
  have lk: "lookup mockedApiClient (email mockLead) (world (start lookup_fails))
             = (Inl (new_Error ''API lookup failed''), no_replies)"
    by code_simp
  have S: "processLeads_loop mockedApiClient [mockLead] (start lookup_fails)
     = \<lparr> world = no_replies, calls = [Lookup (email mockLead)],
         seenEmails = {toLowerCase (email mockLead)},
         pushed = [\<lparr> lead = mockLead, action = Error, error = Some ''API lookup failed'' \<rparr>] \<rparr>"
    using processLead_fresh [OF v1 f api_operations_lookup_failed, of mockedApiClient] lk
    by (simp add: processLeads_loop_def start_def)
  show ?thesis
    using first_valid_occurrence_reaches_remote_later_ones_skipped
            [OF v, where pre = "[mockLead]" and cl = mockedApiClient and w = lookup_fails]
          v1 k S
    by simp
qed


section \<open>Replies that break the contract\<close>

lemma apiClient_module_sel [simp]:
  "lookup (apiClient_module ax b) = lookupLead ax b"
  "create (apiClient_module ax b) = createLead ax b"
  "update (apiClient_module ax b) = updateLead ax b"
  by (simp_all add: apiClient_module_def)

lemma post_request_malformed:
  assumes "axios_post ax path l r = (Inr data, r')" "\<not> exposes_name_and_email data"
  shows "post_request ax path l r = (Inl malformed, r')"
  using assms by (simp add: post_request_def validateLeadResponse_malformed)

lemma createLead_malformed:
  assumes "axios_post ax ''/api/leads/create'' l (remote n) = (Inr data, r')"
    and "\<not> exposes_name_and_email data"
  shows "createLead ax b l n = (Inl malformed, \<lparr>remote = r', wire = wire n @ [Attempt 1]\<rparr>)"
  unfolding createLead_def
  using post_request_malformed [OF assms] not_retryable_malformed
  by (rule withRetry_first_not_retryable)

lemma updateLead_malformed:
  assumes "axios_post ax ''/api/leads/update'' l (remote n) = (Inr data, r')"
    and "\<not> exposes_name_and_email data"
  shows "updateLead ax b l n = (Inl malformed, \<lparr>remote = r', wire = wire n @ [Attempt 1]\<rparr>)"
  unfolding updateLead_def
  using post_request_malformed [OF assms] not_retryable_malformed
  by (rule withRetry_first_not_retryable)

lemma lookupLead_malformed:
  assumes "axios_get ax ''/api/leads/lookup'' em (remote n) = (Inr data, r')"
    and "\<not> exposes_name_and_email data" "get_prop ''found'' data \<noteq> Some (JBool False)"
  shows "lookupLead ax b em n
           = (Inl (if is_object data then malformed
                   else new_TypeError (''Cannot use 'in' operator to search for 'found' in ''
                                       @ text_of_primitive data)),
              \<lparr>remote = r', wire = wire n @ [Attempt 1]\<rparr>)"
proof -
  let ?e = "if is_object data then malformed
            else new_TypeError (''Cannot use 'in' operator to search for 'found' in '' @ text_of_primitive data)"
  have "lookupLead_request ax em (remote n) = (Inl ?e, r')"
    using assms by (simp add: lookupLead_request_reply validateLeadResponse_malformed)
  moreover have "\<not> isRetryable ?e"
    by simp
  ultimately show ?thesis
    unfolding lookupLead_def by (rule withRetry_first_not_retryable)
qed

text \<open>
  A reply exposes a name and an email when it is an object and, after the nested
  \<^verbatim>\<open>lead\<close> object (if there is one) is taken in its place, has both properties. When the
  reply to a create or an update does not, the client throws the malformed-response error.
  So it does for the reply to a lookup that is an object, unless that reply is the not-found
  flag. A reply to a lookup that is no object fails one step earlier, at the test for
  \<^verbatim>\<open>found\<close>, with a TypeError in place of the malformed-response error. Either thrown value
  is an \<^verbatim>\<open>Error\<close> carrying no status and no code, hence not retryable: the client throws it
  after one attempt and no wait, the remote is not called again, and the processor records
  the record as an error with the message of what was thrown and goes on.
\<close>

theorem malformed_reply_fails_once_as_record_error:
  "(axios_post ax ''/api/leads/create'' l (remote n) = (Inr data, r')
      \<and> \<not> exposes_name_and_email data
     \<longrightarrow> createLead ax b l n = (Inl malformed, \<lparr>remote = r', wire = wire n @ [Attempt 1]\<rparr>))
   \<and> (axios_post ax ''/api/leads/update'' l (remote n) = (Inr data, r')
      \<and> \<not> exposes_name_and_email data
     \<longrightarrow> updateLead ax b l n = (Inl malformed, \<lparr>remote = r', wire = wire n @ [Attempt 1]\<rparr>))
   \<and> (axios_get ax ''/api/leads/lookup'' em (remote n) = (Inr data, r')
      \<and> \<not> exposes_name_and_email data \<and> get_prop ''found'' data \<noteq> Some (JBool False)
     \<longrightarrow> lookupLead ax b em n
         = (Inl (if is_object data then malformed
                 else new_TypeError (''Cannot use 'in' operator to search for 'found' in ''
                                     @ text_of_primitive data)),
            \<lparr>remote = r', wire = wire n @ [Attempt 1]\<rparr>))
   \<and> malformed = new_Error ''Malformed API response: missing expected fields (name, email)''
   \<and> \<not> isRetryable malformed
   \<and> \<not> isRetryable (new_TypeError msg)
   \<and> (isValid (validateLead l) \<and> toLowerCase (email l) \<notin> seenEmails st
      \<and> axios_get ax ''/api/leads/lookup'' (email l) (remote (world st)) = (Inr data, r')
      \<and> \<not> exposes_name_and_email data \<and> get_prop ''found'' data \<noteq> Some (JBool False)
     \<longrightarrow> processLead (apiClient_module ax b) l st
         = st\<lparr>world := \<lparr>remote = r', wire = wire (world st) @ [Attempt 1]\<rparr>,
              calls := calls st @ [Lookup (email l)],
              seenEmails := insert (toLowerCase (email l)) (seenEmails st),
              pushed := pushed st @
                [\<lparr> lead = l, action = Error,
                   error = Some (if is_object data
                                 then ''Malformed API response: missing expected fields (name, email)''
                                 else ''Cannot use 'in' operator to search for 'found' in ''
                                      @ text_of_primitive data) \<rparr>]\<rparr>)
   \<and> (isValid (validateLead l) \<and> toLowerCase (email l) \<notin> seenEmails st
      \<and> lookupLead ax b (email l) (world st) = (Inr existing, n1) \<and> \<not> truthy existing
      \<and> axios_post ax ''/api/leads/create'' l (remote n1) = (Inr data, r')
      \<and> \<not> exposes_name_and_email data
     \<longrightarrow> processLead (apiClient_module ax b) l st
         = st\<lparr>world := \<lparr>remote = r', wire = wire n1 @ [Attempt 1]\<rparr>,
              calls := calls st @ [Lookup (email l), Create l],
              seenEmails := insert (toLowerCase (email l)) (seenEmails st),
              pushed := pushed st @
                [\<lparr> lead = l, action = Error,
                   error = Some ''Malformed API response: missing expected fields (name, email)'' \<rparr>]\<rparr>)
   \<and> (isValid (validateLead l) \<and> toLowerCase (email l) \<notin> seenEmails st
      \<and> lookupLead ax b (email l) (world st) = (Inr existing, n1) \<and> truthy existing
      \<and> leadsMatch l existing = Inr False
      \<and> axios_post ax ''/api/leads/update'' l (remote n1) = (Inr data, r')
      \<and> \<not> exposes_name_and_email data
     \<longrightarrow> processLead (apiClient_module ax b) l st
         = st\<lparr>world := \<lparr>remote = r', wire = wire n1 @ [Attempt 1]\<rparr>,
              calls := calls st @ [Lookup (email l), Update l],
              seenEmails := insert (toLowerCase (email l)) (seenEmails st),
              pushed := pushed st @
                [\<lparr> lead = l, action = Error,
                   error = Some ''Malformed API response: missing expected fields (name, email)'' \<rparr>]\<rparr>)"
proof -
  let ?cl = "apiClient_module ax b"
  let ?st1 = "st\<lparr>seenEmails := insert (toLowerCase (email l)) (seenEmails st)\<rparr>"
  have c1: "axios_post ax ''/api/leads/create'' l (remote n) = (Inr data, r')
      \<and> \<not> exposes_name_and_email data
     \<longrightarrow> createLead ax b l n = (Inl malformed, \<lparr>remote = r', wire = wire n @ [Attempt 1]\<rparr>)"
    by (intro impI createLead_malformed [where data = data]) simp_all
  have c2: "axios_post ax ''/api/leads/update'' l (remote n) = (Inr data, r')
      \<and> \<not> exposes_name_and_email data
     \<longrightarrow> updateLead ax b l n = (Inl malformed, \<lparr>remote = r', wire = wire n @ [Attempt 1]\<rparr>)"
    by (intro impI updateLead_malformed [where data = data]) simp_all
  have c3: "axios_get ax ''/api/leads/lookup'' em (remote n) = (Inr data, r')
      \<and> \<not> exposes_name_and_email data \<and> get_prop ''found'' data \<noteq> Some (JBool False)
     \<longrightarrow> lookupLead ax b em n
         = (Inl (if is_object data then malformed
                 else new_TypeError (''Cannot use 'in' operator to search for 'found' in ''
                                     @ text_of_primitive data)),
            \<lparr>remote = r', wire = wire n @ [Attempt 1]\<rparr>)"
    by (intro impI lookupLead_malformed) simp_all
  have c4: "malformed = new_Error ''Malformed API response: missing expected fields (name, email)''"
    by (simp add: malformed_def)
  have c7: "isValid (validateLead l) \<and> toLowerCase (email l) \<notin> seenEmails st
      \<and> axios_get ax ''/api/leads/lookup'' (email l) (remote (world st)) = (Inr data, r')
      \<and> \<not> exposes_name_and_email data \<and> get_prop ''found'' data \<noteq> Some (JBool False)
     \<longrightarrow> processLead ?cl l st
         = st\<lparr>world := \<lparr>remote = r', wire = wire (world st) @ [Attempt 1]\<rparr>,
              calls := calls st @ [Lookup (email l)],
              seenEmails := insert (toLowerCase (email l)) (seenEmails st),
              pushed := pushed st @
                [\<lparr> lead = l, action = Error,
                   error = Some (if is_object data
                                 then ''Malformed API response: missing expected fields (name, email)''
                                 else ''Cannot use 'in' operator to search for 'found' in ''
                                      @ text_of_primitive data) \<rparr>]\<rparr>"
  proof
    assume h: "isValid (validateLead l) \<and> toLowerCase (email l) \<notin> seenEmails st
      \<and> axios_get ax ''/api/leads/lookup'' (email l) (remote (world st)) = (Inr data, r')
      \<and> \<not> exposes_name_and_email data \<and> get_prop ''found'' data \<noteq> Some (JBool False)"
    let ?e = "if is_object data then malformed
              else new_TypeError (''Cannot use 'in' operator to search for 'found' in '' @ text_of_primitive data)"
    from h have "lookupLead ax b (email l) (world st)
                   = (Inl ?e, \<lparr>remote = r', wire = wire (world st) @ [Attempt 1]\<rparr>)"
      by (intro lookupLead_malformed) simp_all
    then have "lookup ?cl (email l) (world ?st1)
                   = (Inl ?e, \<lparr>remote = r', wire = wire (world st) @ [Attempt 1]\<rparr>)"
      by simp
    from api_operations_lookup_failed [OF this] h
    show "processLead ?cl l st
         = st\<lparr>world := \<lparr>remote = r', wire = wire (world st) @ [Attempt 1]\<rparr>,
              calls := calls st @ [Lookup (email l)],
              seenEmails := insert (toLowerCase (email l)) (seenEmails st),
              pushed := pushed st @
                [\<lparr> lead = l, action = Error,
                   error = Some (if is_object data
                                 then ''Malformed API response: missing expected fields (name, email)''
                                 else ''Cannot use 'in' operator to search for 'found' in ''
                                      @ text_of_primitive data) \<rparr>]\<rparr>"
      using processLead_fresh [of l st ?cl] by simp
  qed
  have c8: "isValid (validateLead l) \<and> toLowerCase (email l) \<notin> seenEmails st
      \<and> lookupLead ax b (email l) (world st) = (Inr existing, n1) \<and> \<not> truthy existing
      \<and> axios_post ax ''/api/leads/create'' l (remote n1) = (Inr data, r')
      \<and> \<not> exposes_name_and_email data
     \<longrightarrow> processLead ?cl l st
         = st\<lparr>world := \<lparr>remote = r', wire = wire n1 @ [Attempt 1]\<rparr>,
              calls := calls st @ [Lookup (email l), Create l],
              seenEmails := insert (toLowerCase (email l)) (seenEmails st),
              pushed := pushed st @
                [\<lparr> lead = l, action = Error,
                   error = Some ''Malformed API response: missing expected fields (name, email)'' \<rparr>]\<rparr>"
  proof
    assume h: "isValid (validateLead l) \<and> toLowerCase (email l) \<notin> seenEmails st
      \<and> lookupLead ax b (email l) (world st) = (Inr existing, n1) \<and> \<not> truthy existing
      \<and> axios_post ax ''/api/leads/create'' l (remote n1) = (Inr data, r')
      \<and> \<not> exposes_name_and_email data"
    then have k: "lookup ?cl (email l) (world ?st1) = (Inr existing, n1)" and t: "\<not> truthy existing"
      by simp_all
    from h have "create ?cl l n1 = (Inl malformed, \<lparr>remote = r', wire = wire n1 @ [Attempt 1]\<rparr>)"
      by (simp add: createLead_malformed)
    from api_operations_not_found [OF k t this] h
    show "processLead ?cl l st
         = st\<lparr>world := \<lparr>remote = r', wire = wire n1 @ [Attempt 1]\<rparr>,
              calls := calls st @ [Lookup (email l), Create l],
              seenEmails := insert (toLowerCase (email l)) (seenEmails st),
              pushed := pushed st @
                [\<lparr> lead = l, action = Error,
                   error = Some ''Malformed API response: missing expected fields (name, email)'' \<rparr>]\<rparr>"
      using processLead_fresh [of l st ?cl] by simp
  qed
  have c9: "isValid (validateLead l) \<and> toLowerCase (email l) \<notin> seenEmails st
      \<and> lookupLead ax b (email l) (world st) = (Inr existing, n1) \<and> truthy existing
      \<and> leadsMatch l existing = Inr False
      \<and> axios_post ax ''/api/leads/update'' l (remote n1) = (Inr data, r')
      \<and> \<not> exposes_name_and_email data
     \<longrightarrow> processLead ?cl l st
         = st\<lparr>world := \<lparr>remote = r', wire = wire n1 @ [Attempt 1]\<rparr>,
              calls := calls st @ [Lookup (email l), Update l],
              seenEmails := insert (toLowerCase (email l)) (seenEmails st),
              pushed := pushed st @
                [\<lparr> lead = l, action = Error,
                   error = Some ''Malformed API response: missing expected fields (name, email)'' \<rparr>]\<rparr>"
  proof
    assume h: "isValid (validateLead l) \<and> toLowerCase (email l) \<notin> seenEmails st
      \<and> lookupLead ax b (email l) (world st) = (Inr existing, n1) \<and> truthy existing
      \<and> leadsMatch l existing = Inr False
      \<and> axios_post ax ''/api/leads/update'' l (remote n1) = (Inr data, r')
      \<and> \<not> exposes_name_and_email data"
    then have k: "lookup ?cl (email l) (world ?st1) = (Inr existing, n1)" and t: "truthy existing"
      and d: "leadsMatch l existing = Inr False"
      by simp_all
    from h have "update ?cl l n1 = (Inl malformed, \<lparr>remote = r', wire = wire n1 @ [Attempt 1]\<rparr>)"
      by (simp add: updateLead_malformed)
    from api_operations_differs [OF k t d this] h
    show "processLead ?cl l st
         = st\<lparr>world := \<lparr>remote = r', wire = wire n1 @ [Attempt 1]\<rparr>,
              calls := calls st @ [Lookup (email l), Update l],
              seenEmails := insert (toLowerCase (email l)) (seenEmails st),
              pushed := pushed st @
                [\<lparr> lead = l, action = Error,
                   error = Some ''Malformed API response: missing expected fields (name, email)'' \<rparr>]\<rparr>"
      using processLead_fresh [of l st ?cl] by simp
  qed
  show ?thesis
    by (intro conjI c1 c2 c3 c4 not_retryable_malformed not_retryable_new_TypeError c7 c8 c9)
qed

theorem malformed_reply_fails_once_as_record_error_witness:
  "\<not> exposes_name_and_email foo_bar
   \<and> lookupLead mockedAxios 1000 ''jane@example.com''
       \<lparr>remote = \<lparr>get_replies = [Inr foo_bar], post_replies = []\<rparr>, wire = []\<rparr>
     = (Inl (new_Error ''Malformed API response: missing expected fields (name, email)''),
        \<lparr>remote = \<lparr>get_replies = [], post_replies = []\<rparr>, wire = [Attempt 1]\<rparr>)
   \<and> processLead (apiClient_module mockedAxios 1000) mockLead
       (start \<lparr>remote = \<lparr>get_replies = [Inr foo_bar], post_replies = []\<rparr>, wire = []\<rparr>)
     = \<lparr> world = \<lparr>remote = \<lparr>get_replies = [], post_replies = []\<rparr>, wire = [Attempt 1]\<rparr>,
         calls = [Lookup (email mockLead)],
         seenEmails = {toLowerCase (email mockLead)},
         pushed = [\<lparr> lead = mockLead, action = Error,
                     error = Some ''Malformed API response: missing expected fields (name, email)'' \<rparr>] \<rparr>"
proof -
  let ?n = "\<lparr>remote = \<lparr>get_replies = [Inr foo_bar], post_replies = []\<rparr>, wire = []\<rparr>"
  have x: "\<not> exposes_name_and_email foo_bar"
    by code_simp
  have o: "is_object foo_bar"
    by code_simp
  have f: "get_prop ''found'' foo_bar \<noteq> Some (JBool False)"
    by code_simp
  have e: "email mockLead = ''jane@example.com''"
    by (simp add: mockLead_def)
  have g: "axios_get mockedAxios ''/api/leads/lookup'' ''jane@example.com'' (remote ?n)
             = (Inr foo_bar, \<lparr>get_replies = [], post_replies = []\<rparr>)"
    by code_simp
  have v: "isValid (validateLead mockLead)"
    by code_simp
  have s: "toLowerCase (email mockLead) \<notin> seenEmails (start ?n)"
    by (simp add: start_def)
  show ?thesis
    using malformed_reply_fails_once_as_record_error
            [where ax = mockedAxios and b = 1000 and l = mockLead and n = ?n and data = foo_bar
               and r' = "\<lparr>get_replies = [], post_replies = []\<rparr>" and em = "''jane@example.com''"
               and st = "start ?n" and msg = "[]" and existing = JNull and ?n1.0 = ?n]
          x o f e g v s
    by (simp add: start_def)
qed

text \<open>
  Claim C7. The specification asks for the malformed-response failure whenever a successful
  reply lacks a name or an email, and the client gives it when a create or an update is
  answered with \<^verbatim>\<open>null\<close>. When a lookup is answered with \<^verbatim>\<open>null\<close>, the client throws
  something else: the test \<^verbatim>\<open>"found" in response.data\<close> comes before the validation of the
  reply and throws a TypeError. Neither is retried.
\<close>

theorem lookup_answered_null_throws_TypeError_not_malformed:
  "lookupLead mockedAxios 1000 ''jane@example.com''
     \<lparr>remote = \<lparr>get_replies = [Inr JNull], post_replies = []\<rparr>, wire = []\<rparr>
   = (Inl (new_TypeError ''Cannot use 'in' operator to search for 'found' in null''),
      \<lparr>remote = \<lparr>get_replies = [], post_replies = []\<rparr>, wire = [Attempt 1]\<rparr>)
   \<and> createLead mockedAxios 1000 mockLead
     \<lparr>remote = \<lparr>get_replies = [], post_replies = [Inr JNull]\<rparr>, wire = []\<rparr>
   = (Inl malformed, \<lparr>remote = \<lparr>get_replies = [], post_replies = []\<rparr>, wire = [Attempt 1]\<rparr>)
   \<and> updateLead mockedAxios 1000 mockLead
     \<lparr>remote = \<lparr>get_replies = [], post_replies = [Inr JNull]\<rparr>, wire = []\<rparr>
   = (Inl malformed, \<lparr>remote = \<lparr>get_replies = [], post_replies = []\<rparr>, wire = [Attempt 1]\<rparr>)
   \<and> new_TypeError ''Cannot use 'in' operator to search for 'found' in null'' \<noteq> malformed
   \<and> message malformed = ''Malformed API response: missing expected fields (name, email)''"
  by code_simp

lemma normalizeCompany_Nil [simp]: "normalizeCompany [] = []"
  by (simp add: normalizeCompany_def)

lemma String_or_empty_None [simp]: "String_or_empty None = Inr []"
  by (simp add: String_or_empty_def)

lemma String_prop_Some [simp]: "String_prop (Some x) = String_js x"
  by (simp add: String_prop_def)

lemma validateLeadResponse_nested:
  assumes "get_prop ''lead'' data = Some ld" "is_object ld"
    and "get_prop ''name'' ld = Some nm" "get_prop ''email'' ld = Some em"
  shows "validateLeadResponse data = lead_literal ld"
proof -
  have "is_object data"
    using assms(1) by (rule get_prop_Some_is_object)
  moreover have "unwrapped data = ld"
    using assms by (simp add: unwrapped_def)
  ultimately show ?thesis
    using assms by (simp add: validateLeadResponse_eq exposes_name_and_email_def)
qed

lemma lead_literal_converted:
  assumes "get_prop ''name'' ld = Some nm" "get_prop ''email'' ld = Some em"
    and "String_js nm = Inr n" "String_js em = Inr e"
    and "String_or_empty (get_prop ''company'' ld) = Inr c"
    and "String_or_empty (get_prop ''source'' ld) = Inr s"
  shows "lead_literal ld = Inr (lead_object n e c s)"
  using assms by (simp add: lead_literal_def)

lemma validateLeadResponse_flat:
  assumes "\<forall>ld. get_prop ''lead'' data = Some ld \<longrightarrow> \<not> is_object ld"
    and "get_prop ''name'' data \<noteq> None" "get_prop ''email'' data \<noteq> None"
  shows "validateLeadResponse data = Inr data"
proof -
  obtain v where "get_prop ''name'' data = Some v"
    using assms(2) by (cases "get_prop ''name'' data") simp_all
  then have "is_object data"
    by (rule get_prop_Some_is_object)
  moreover have "unwrapped data = data"
    using assms(1) by (simp add: unwrapped_def split: option.splits)
  ultimately show ?thesis
    using assms by (simp add: validateLeadResponse_eq exposes_name_and_email_def)
qed

lemma String_js_text [simp]: "String_js (JStr t) = Inr t"
  by (simp add: text_of_primitive_def)

text \<open>
  The claim C10 as the specification words it has every reply with a name and an email
  accepted, and a found record without company compared as if its company were the empty
  string. Neither holds of every such reply. A flat reply \<^verbatim>\<open>{ name, email, source }\<close> to a
  lookup is returned as it is; the comparison of the processor then calls \<^verbatim>\<open>trim\<close> on a
  company that is \<^verbatim>\<open>undefined\<close> and throws, and the record, which differs from the found
  one in nothing but the company, ends as an error with no update called. And a nested reply
  whose name is an object with a property \<^verbatim>\<open>toString\<close> has a name and an email, yet the
  conversion of that name throws and the reply is not accepted.
\<close>

theorem flat_reply_without_company_counterexample:
  "exposes_name_and_email flat_without_company
   \<and> get_prop ''company'' flat_without_company = None
   \<and> lookupLead mockedAxios 1000 (email mockLead)
       \<lparr>remote = \<lparr>get_replies = [Inr flat_without_company], post_replies = []\<rparr>, wire = []\<rparr>
     = (Inr flat_without_company,
        \<lparr>remote = \<lparr>get_replies = [], post_replies = []\<rparr>, wire = [Attempt 1]\<rparr>)
   \<and> leadsMatch mockLead flat_without_company
     = Inl (new_TypeError ''Cannot read properties of undefined (reading 'trim')'')
   \<and> leadsMatch mockLead (lead_object ''Jane Doe'' ''jane@example.com'' [] ''LinkedIn'') = Inr False
   \<and> results (fst (processLeads (apiClient_module mockedAxios 1000) [mockLead]
       \<lparr>remote = \<lparr>get_replies = [Inr flat_without_company], post_replies = []\<rparr>, wire = []\<rparr>))
     = [\<lparr> lead = mockLead, action = Error,
          error = Some ''Cannot read properties of undefined (reading 'trim')'' \<rparr>]
   \<and> calls (snd (processLeads (apiClient_module mockedAxios 1000) [mockLead]
       \<lparr>remote = \<lparr>get_replies = [Inr flat_without_company], post_replies = []\<rparr>, wire = []\<rparr>))
     = [Lookup (email mockLead)]
   \<and> exposes_name_and_email name_hides_toString
   \<and> validateLeadResponse name_hides_toString
     = Inl (new_TypeError ''Cannot convert object to primitive value'')"
  by code_simp

text \<open>
  Claim C10, amended. Take a reply with a nested \<^verbatim>\<open>lead\<close> object that has a name and an
  email, and let \<^verbatim>\<open>String()\<close> convert them, and the company and source if present (it
  converts every text; only an object that hides \<^verbatim>\<open>toString\<close> makes it throw). The reply is
  accepted, and the client builds from it a lead of four strings in which a company or source
  that is absent (or \<^verbatim>\<open>null\<close>) is the empty string. A flat reply with a name and an email
  is accepted too and returned as it is, without that substitution. A record that a lookup
  finds nested and without company therefore reaches the processor with the company \<^verbatim>\<open>""\<close>:
  the comparison with \<^verbatim>\<open>leadsMatch\<close> holds exactly when the incoming company normalizes to the
  empty string, the other three fields being equal, and the one with \<^verbatim>\<open>leadsAreIdentical\<close>
  exactly when all four fields are the same strings.
\<close>

theorem reply_without_company_or_source_accepted:
  "(get_prop ''lead'' data = Some ld \<and> is_object ld
      \<and> get_prop ''name'' ld = Some nm \<and> get_prop ''email'' ld = Some em
      \<and> String_js nm = Inr n \<and> String_js em = Inr e
      \<and> String_or_empty (get_prop ''company'' ld) = Inr c
      \<and> String_or_empty (get_prop ''source'' ld) = Inr s
     \<longrightarrow> validateLeadResponse data = Inr (lead_object n e c s))
   \<and> String_or_empty None = Inr []
   \<and> String_or_empty (Some JNull) = Inr []
   \<and> String_js (JStr t) = Inr t
   \<and> (String_js x = Inl err \<longrightarrow> err = new_TypeError ''Cannot convert object to primitive value'')
   \<and> ((\<forall>ld. get_prop ''lead'' flat = Some ld \<longrightarrow> \<not> is_object ld)
      \<and> get_prop ''name'' flat \<noteq> None \<and> get_prop ''email'' flat \<noteq> None
     \<longrightarrow> validateLeadResponse flat = Inr flat)
   \<and> (axios_get ax ''/api/leads/lookup'' q (remote m) = (Inr data, r')
      \<and> get_prop ''found'' data \<noteq> Some (JBool False)
      \<and> get_prop ''lead'' data = Some ld \<and> is_object ld
      \<and> get_prop ''name'' ld = Some nm \<and> get_prop ''email'' ld = Some em
      \<and> String_js nm = Inr n \<and> String_js em = Inr e
      \<and> get_prop ''company'' ld = None
      \<and> String_or_empty (get_prop ''source'' ld) = Inr s
     \<longrightarrow> lookupLead ax b q m
         = (Inr (lead_object n e [] s), \<lparr>remote = r', wire = wire m @ [Attempt 1]\<rparr>))
   \<and> leadsMatch l (lead_object n e [] s)
       = Inr (name l = n \<and> toLowerCase (email l) = toLowerCase e
              \<and> normalizeCompany (company l) = [] \<and> source l = s)
   \<and> leadsAreIdentical (lead_object n e [] s) l
       = (name l = n \<and> email l = e \<and> company l = [] \<and> source l = s)"
proof -
  have a: "get_prop ''lead'' data = Some ld \<and> is_object ld
      \<and> get_prop ''name'' ld = Some nm \<and> get_prop ''email'' ld = Some em
      \<and> String_js nm = Inr n \<and> String_js em = Inr e
      \<and> String_or_empty (get_prop ''company'' ld) = Inr c
      \<and> String_or_empty (get_prop ''source'' ld) = Inr s
     \<longrightarrow> validateLeadResponse data = Inr (lead_object n e c s)"
  proof
    assume h: "get_prop ''lead'' data = Some ld \<and> is_object ld
      \<and> get_prop ''name'' ld = Some nm \<and> get_prop ''email'' ld = Some em
      \<and> String_js nm = Inr n \<and> String_js em = Inr e
      \<and> String_or_empty (get_prop ''company'' ld) = Inr c
      \<and> String_or_empty (get_prop ''source'' ld) = Inr s"
    then have "validateLeadResponse data = lead_literal ld"
      by (intro validateLeadResponse_nested) simp_all
    moreover from h have "lead_literal ld = Inr (lead_object n e c s)"
      using lead_literal_converted [of ld nm em n e c s] by simp
    ultimately show "validateLeadResponse data = Inr (lead_object n e c s)"
      by simp
  qed
  have n0: "String_or_empty (Some JNull) = Inr []"
    by (simp add: String_or_empty_def)
  have t: "String_js x = Inl err \<longrightarrow> err = new_TypeError ''Cannot convert object to primitive value''"
    by (intro impI String_js_Inl)
  have c: "(\<forall>ld. get_prop ''lead'' flat = Some ld \<longrightarrow> \<not> is_object ld)
      \<and> get_prop ''name'' flat \<noteq> None \<and> get_prop ''email'' flat \<noteq> None
     \<longrightarrow> validateLeadResponse flat = Inr flat"
    by (intro impI validateLeadResponse_flat) simp_all
  have d: "axios_get ax ''/api/leads/lookup'' q (remote m) = (Inr data, r')
      \<and> get_prop ''found'' data \<noteq> Some (JBool False)
      \<and> get_prop ''lead'' data = Some ld \<and> is_object ld
      \<and> get_prop ''name'' ld = Some nm \<and> get_prop ''email'' ld = Some em
      \<and> String_js nm = Inr n \<and> String_js em = Inr e
      \<and> get_prop ''company'' ld = None
      \<and> String_or_empty (get_prop ''source'' ld) = Inr s
     \<longrightarrow> lookupLead ax b q m
         = (Inr (lead_object n e [] s), \<lparr>remote = r', wire = wire m @ [Attempt 1]\<rparr>)"
  proof
    assume h: "axios_get ax ''/api/leads/lookup'' q (remote m) = (Inr data, r')
      \<and> get_prop ''found'' data \<noteq> Some (JBool False)
      \<and> get_prop ''lead'' data = Some ld \<and> is_object ld
      \<and> get_prop ''name'' ld = Some nm \<and> get_prop ''email'' ld = Some em
      \<and> String_js nm = Inr n \<and> String_js em = Inr e
      \<and> get_prop ''company'' ld = None
      \<and> String_or_empty (get_prop ''source'' ld) = Inr s"
    then have "get_prop ''lead'' data = Some ld"
      by simp
    then have o: "is_object data"
      by (rule get_prop_Some_is_object)
    from h have "validateLeadResponse data = lead_literal ld"
      by (intro validateLeadResponse_nested) simp_all
    moreover from h have "lead_literal ld = Inr (lead_object n e [] s)"
      using lead_literal_converted [of ld nm em n e "[]" s] by simp
    ultimately have "lookupLead_request ax q (remote m) = (Inr (lead_object n e [] s), r')"
      using h o by (simp add: lookupLead_request_reply)
    then show "lookupLead ax b q m
         = (Inr (lead_object n e [] s), \<lparr>remote = r', wire = wire m @ [Attempt 1]\<rparr>)"
      unfolding lookupLead_def by (rule withRetry_first_success)
  qed
  have e: "leadsMatch l (lead_object n e [] s)
       = Inr (name l = n \<and> toLowerCase (email l) = toLowerCase e
              \<and> normalizeCompany (company l) = [] \<and> source l = s)"
    using leadsMatch_strings [of "lead_object n e [] s" n e "[]" s l] by simp
  have f: "leadsAreIdentical (lead_object n e [] s) l
       = (name l = n \<and> email l = e \<and> company l = [] \<and> source l = s)"
    by (auto simp: leadsAreIdentical_raw)
  show ?thesis
    by (intro conjI a String_or_empty_None n0 String_js_text t c d e f)
qed

theorem reply_without_company_or_source_accepted_witness:
  "validateLeadResponse found_without_company
     = Inr (lead_object ''Jane Doe'' ''jane@example.com'' [] [])
   \<and> lookupLead mockedAxios 1000 ''jane@example.com''
       \<lparr>remote = \<lparr>get_replies = [Inr found_without_company], post_replies = []\<rparr>, wire = []\<rparr>
     = (Inr (lead_object ''Jane Doe'' ''jane@example.com'' [] []),
        \<lparr>remote = \<lparr>get_replies = [], post_replies = []\<rparr>, wire = [Attempt 1]\<rparr>)
   \<and> leadsMatch mockLead (lead_object ''Jane Doe'' ''jane@example.com'' [] []) = Inr False"
proof -
  let ?ld = "JObj [(''name'', JStr ''Jane Doe''), (''email'', JStr ''jane@example.com'')]"
  let ?m = "\<lparr>remote = \<lparr>get_replies = [Inr found_without_company], post_replies = []\<rparr>, wire = []\<rparr>"
  have p: "get_prop ''lead'' found_without_company = Some ?ld" "is_object ?ld"
          "get_prop ''name'' ?ld = Some (JStr ''Jane Doe'')"
          "get_prop ''email'' ?ld = Some (JStr ''jane@example.com'')"
          "get_prop ''company'' ?ld = None" "get_prop ''source'' ?ld = None"
          "get_prop ''found'' found_without_company \<noteq> Some (JBool False)"
    by (simp_all add: found_without_company_def get_prop_def is_object_def)
  have g: "axios_get mockedAxios ''/api/leads/lookup'' ''jane@example.com'' (remote ?m)
             = (Inr found_without_company, \<lparr>get_replies = [], post_replies = []\<rparr>)"
    by code_simp
  have c: "normalizeCompany (company mockLead) \<noteq> []"
    by code_simp
  show ?thesis
    using reply_without_company_or_source_accepted
            [where data = found_without_company and ld = ?ld and nm = "JStr ''Jane Doe''"
               and em = "JStr ''jane@example.com''" and ax = mockedAxios and b = 1000
               and q = "''jane@example.com''" and m = ?m
               and r' = "\<lparr>get_replies = [], post_replies = []\<rparr>"
               and flat = ?ld and l = mockLead and n = "''Jane Doe''"
               and e = "''jane@example.com''" and c = "[]" and s = "[]"
               and t = "[]" and x = JNull and err = malformed]
          p g c
    by (simp add: text_of_primitive_def)
qed

end
